theory Spec2Isabelle
  imports Complex_Main "HOL-Library.AList"
begin

section \<open>Python values, exceptions and the library\<close>

text \<open>
  The module \<^verbatim>\<open>helpers/benchmark.py\<close> works on what \<^verbatim>\<open>json.loads\<close> returns:
  \<^verbatim>\<open>None\<close>, booleans, integers, floats, strings, lists and dictionaries with string
  keys. A finite float is the rational it denotes, so that its comparison with an
  integer is Python's (which is exact); the non-finite floats that \<^verbatim>\<open>json.loads\<close>
  accepts as an extension are not in the type. A dictionary is an association list,
  looked up with \<open>map_of\<close>.
\<close>

datatype json =
    JNull
  | JBool bool
  | JInt int
  | JFloat rat
  | JStr string
  | JArr "json list"
  | JObj "(string \<times> json) list"

text \<open>An aware \<^verbatim>\<open>datetime\<close>, given by the instant it denotes.\<close>

datatype datetime = Datetime int

text \<open>What a record holds under a key: a JSON value or the file's timestamp.\<close>

datatype pyval = Json json | Timestamp datetime

type_synonym pyrecord = "(string \<times> pyval) list"

datatype pyerr =
    KeyError
  | TypeError
  | ValueError
  | AttributeError
  | OverflowError
  | JSONDecodeError
  | OtherException

text \<open>
  What the module prints, one constructor for each \<^verbatim>\<open>print\<close> of the source, with the
  values its f-string shows.
\<close>

datatype diag =
    InvalidMetadataLine string
  | UnknownAmdFrequency json
  | UnknownProvider string string
  | ErrorParsingLine string pyerr

text \<open>
  The library functions the module calls and whose bodies are not part of it. A
  theorem that quantifies over the library holds for whatever they compute.
  \<^item> \<open>json_loads\<close>: \<^verbatim>\<open>json.loads\<close>; \<open>Inl JSONDecodeError\<close> on malformed text.
  \<^item> \<open>fromisoformat\<close>: \<^verbatim>\<open>datetime.fromisoformat\<close>; \<open>None\<close> is its \<^verbatim>\<open>ValueError\<close>.
  \<^item> \<open>str_lower\<close>: \<^verbatim>\<open>str.lower\<close>.
  \<^item> \<open>int_of_str\<close>: \<^verbatim>\<open>int\<close> on a string; \<open>None\<close> is its \<^verbatim>\<open>ValueError\<close>.
  \<^item> \<open>repr_of\<close>: \<^verbatim>\<open>str\<close> on a float, a list or a dictionary.
  \<^item> \<open>shorten_cpu_name\<close>: \<^verbatim>\<open>helpers.cpus.shorten_cpu_name\<close>, the CPU name
    normalizer.
\<close>

record pylib =
  json_loads :: "string \<Rightarrow> pyerr + json"
  fromisoformat :: "string \<Rightarrow> datetime option"
  str_lower :: "string \<Rightarrow> string"
  int_of_str :: "string \<Rightarrow> int option"
  repr_of :: "json \<Rightarrow> string"
  shorten_cpu_name :: "json \<Rightarrow> pyerr + pyval"

subsection \<open>Strings\<close>

fun startswith :: "string \<Rightarrow> string \<Rightarrow> bool" where
  "startswith s [] = True"
| "startswith [] (p # ps) = False"
| "startswith (c # cs) (p # ps) = (c = p \<and> startswith cs ps)"

text \<open>\<^verbatim>\<open>needle in hay\<close> on two strings.\<close>

fun str_contains :: "string \<Rightarrow> string \<Rightarrow> bool" where
  "str_contains [] needle = (needle = [])"
| "str_contains (c # cs) needle = (startswith (c # cs) needle \<or> str_contains cs needle)"

definition endswith :: "string \<Rightarrow> string \<Rightarrow> bool" where
  "endswith s suf = startswith (rev s) (rev suf)"

text \<open>\<^verbatim>\<open>s.replace("Z", "+00:00")\<close>.\<close>

definition replace_Z :: "string \<Rightarrow> string" where
  "replace_Z s = concat (map (\<lambda>c. if c = CHR ''Z'' then ''+00:00'' else [c]) s)"

text \<open>\<^verbatim>\<open>s.split(sep)\<close> with a one-character separator: empty fields are kept.\<close>

fun split_sep :: "char \<Rightarrow> string \<Rightarrow> string list" where
  "split_sep sep [] = [[]]"
| "split_sep sep (c # cs) =
     (if c = sep then [] # split_sep sep cs
      else (case split_sep sep cs of
              w # ws \<Rightarrow> (c # w) # ws
            | [] \<Rightarrow> [[c]]))"

fun digits :: "nat \<Rightarrow> string" where
  "digits n =
     (if n < 10 then [''0123456789'' ! n]
      else digits (n div 10) @ [''0123456789'' ! (n mod 10)])"

declare digits.simps [simp del]

definition str_of_int :: "int \<Rightarrow> string" where
  "str_of_int i = (if i < 0 then CHR ''-'' # digits (nat (- i)) else digits (nat i))"

subsection \<open>Operations on values\<close>

text \<open>\<^verbatim>\<open>d[k]\<close> with a string key.\<close>

fun subscript :: "json \<Rightarrow> string \<Rightarrow> pyerr + json" where
  "subscript (JObj kvs) k = (case map_of kvs k of None \<Rightarrow> Inl KeyError | Some v \<Rightarrow> Inr v)"
| "subscript _ k = Inl TypeError"

text \<open>\<^verbatim>\<open>d.get(k, default)\<close>; only a dictionary has the method.\<close>

fun dict_get :: "json \<Rightarrow> string \<Rightarrow> json \<Rightarrow> pyerr + json" where
  "dict_get (JObj kvs) k d = (case map_of kvs k of None \<Rightarrow> Inr d | Some v \<Rightarrow> Inr v)"
| "dict_get _ k d = Inl AttributeError"

text \<open>The same on a value known to be a dictionary.\<close>

definition get :: "(string \<times> json) list \<Rightarrow> string \<Rightarrow> json \<Rightarrow> json" where
  "get kvs k d = (case map_of kvs k of None \<Rightarrow> d | Some v \<Rightarrow> v)"

text \<open>\<^verbatim>\<open>int(x)\<close>: a float is truncated towards zero.\<close>

fun py_int :: "pylib \<Rightarrow> json \<Rightarrow> pyerr + int" where
  "py_int L (JInt n) = Inr n"
| "py_int L (JBool b) = Inr (if b then 1 else 0)"
| "py_int L (JFloat q) = Inr (if 0 \<le> q then \<lfloor>q\<rfloor> else \<lceil>q\<rceil>)"
| "py_int L (JStr s) = (case int_of_str L s of None \<Rightarrow> Inl ValueError | Some n \<Rightarrow> Inr n)"
| "py_int L _ = Inl TypeError"

text \<open>\<^verbatim>\<open>str(x)\<close>, which is also what an f-string shows for \<^verbatim>\<open>{x}\<close>.\<close>

fun py_str :: "pylib \<Rightarrow> json \<Rightarrow> string" where
  "py_str L (JStr s) = s"
| "py_str L (JInt n) = str_of_int n"
| "py_str L (JBool b) = (if b then ''True'' else ''False'')"
| "py_str L JNull = ''None''"
| "py_str L v = repr_of L v"

text \<open>The truth value of \<^verbatim>\<open>x\<close> in \<^verbatim>\<open>x and ...\<close>.\<close>

fun truthy :: "json \<Rightarrow> bool" where
  "truthy JNull = False"
| "truthy (JBool b) = b"
| "truthy (JInt n) = (n \<noteq> 0)"
| "truthy (JFloat q) = (q \<noteq> 0)"
| "truthy (JStr s) = (s \<noteq> [])"
| "truthy (JArr xs) = (xs \<noteq> [])"
| "truthy (JObj kvs) = (kvs \<noteq> [])"

text \<open>\<^verbatim>\<open>x >= k\<close> and \<^verbatim>\<open>x <= k\<close> for an integer literal \<^verbatim>\<open>k\<close>.\<close>

fun py_ge :: "json \<Rightarrow> int \<Rightarrow> pyerr + bool" where
  "py_ge (JInt n) k = Inr (n \<ge> k)"
| "py_ge (JBool b) k = Inr ((if b then 1 else 0) \<ge> k)"
| "py_ge (JFloat q) k = Inr (q \<ge> of_int k)"
| "py_ge _ k = Inl TypeError"

fun py_le :: "json \<Rightarrow> int \<Rightarrow> pyerr + bool" where
  "py_le (JInt n) k = Inr (n \<le> k)"
| "py_le (JBool b) k = Inr ((if b then 1 else 0) \<le> k)"
| "py_le (JFloat q) k = Inr (q \<le> of_int k)"
| "py_le _ k = Inl TypeError"

text \<open>
  \<^verbatim>\<open>needle in x\<close> for a string \<^verbatim>\<open>needle\<close>: substring of a string, element of a list,
  key of a dictionary; the other values are not iterable.
\<close>

fun py_in :: "string \<Rightarrow> json \<Rightarrow> pyerr + bool" where
  "py_in needle (JStr s) = Inr (str_contains s needle)"
| "py_in needle (JArr xs) = Inr (JStr needle \<in> set xs)"
| "py_in needle (JObj kvs) = Inr (needle \<in> fst ` set kvs)"
| "py_in needle _ = Inl TypeError"

section \<open>The record extractor: \<^verbatim>\<open>parse_log_file\<close>\<close>

subsection \<open>The metadata line (lines 31 to 38)\<close>

record meta_info =
  timestamp :: datetime
  provider :: string
  region :: json
  memory :: int
  func :: json
  parallel :: int
  iterations :: int
  retries :: int

text \<open>\<^verbatim>\<open>datetime.fromisoformat(meta["timestamp"].replace("Z", "+00:00"))\<close>.\<close>

definition meta_timestamp :: "pylib \<Rightarrow> json \<Rightarrow> pyerr + datetime" where
  "meta_timestamp L meta =
     (case subscript meta ''timestamp'' of
        Inl e \<Rightarrow> Inl e
      | Inr (JStr s) \<Rightarrow>
          (case fromisoformat L (replace_Z s) of
             None \<Rightarrow> Inl ValueError
           | Some t \<Rightarrow> Inr t)
      | Inr _ \<Rightarrow> Inl AttributeError)"

text \<open>\<^verbatim>\<open>meta.get("provider", "unknown").lower()\<close>.\<close>

definition meta_provider :: "pylib \<Rightarrow> (string \<times> json) list \<Rightarrow> pyerr + string" where
  "meta_provider L kvs =
     (case get kvs ''provider'' (JStr ''unknown'') of
        JStr s \<Rightarrow> Inr (str_lower L s)
      | _ \<Rightarrow> Inl AttributeError)"

text \<open>
  The assignments of lines 31 to 38, in their order: the first one that raises
  decides the exception. After line 31 has read \<^verbatim>\<open>meta["timestamp"]\<close>, \<^verbatim>\<open>meta\<close> is a
  dictionary.
\<close>

definition extract_meta :: "pylib \<Rightarrow> json \<Rightarrow> pyerr + meta_info" where
  "extract_meta L meta =
     (case meta_timestamp L meta of
        Inl e \<Rightarrow> Inl e
      | Inr ts \<Rightarrow>
     (case meta of
        JObj kvs \<Rightarrow>
     (case meta_provider L kvs of
        Inl e \<Rightarrow> Inl e
      | Inr p \<Rightarrow>
     (case py_int L (get kvs ''memorySize'' (JStr ''unknown'')) of
        Inl e \<Rightarrow> Inl e
      | Inr mem \<Rightarrow>
     (case py_int L (get kvs ''parallel-requests'' (JInt 0)) of
        Inl e \<Rightarrow> Inl e
      | Inr par \<Rightarrow>
     (case py_int L (get kvs ''iterationsPerBenchmark'' (JInt 0)) of
        Inl e \<Rightarrow> Inl e
      | Inr its \<Rightarrow>
     (case py_int L (get kvs ''retries'' (JInt 0)) of
        Inl e \<Rightarrow> Inl e
      | Inr rts \<Rightarrow>
          Inr \<lparr>timestamp = ts, provider = p,
               region = get kvs ''region'' (JStr ''unknown''),
               memory = mem,
               func = get kvs ''function'' (JStr ''unknown''),
               parallel = par, iterations = its, retries = rts\<rparr>)))))
      | _ \<Rightarrow> Inl TypeError))"

subsection \<open>CPU resolution (lines 46 to 71)\<close>

definition GCP_CPU_MAPPING :: "(string \<times> string) list" where
  "GCP_CPU_MAPPING =
     [(''1'', ''Model 1 (AMD)''),
      (''17'', ''Model 17 (AMD)''),
      (''85'', ''Model 85 (Intel)''),
      (''106'', ''Model 106 (Intel)''),
      (''143'', ''Model 143 (Intel)''),
      (''173'', ''Model 173 (Intel)'')]"

text \<open>\<^verbatim>\<open>GCP_CPU_MAPPING.get(str(model), f"Model {model} (Unknown)")\<close>.\<close>

definition gcp_cpu_field :: "pylib \<Rightarrow> json \<Rightarrow> string" where
  "gcp_cpu_field L model =
     (case map_of GCP_CPU_MAPPING (py_str L model) of
        Some v \<Rightarrow> v
      | None \<Rightarrow> ''Model '' @ py_str L model @ '' (Unknown)'')"

text \<open>
  \<^verbatim>\<open>f and f >= lo and f <= hi\<close>: a falsy \<^verbatim>\<open>f\<close> ends the test before any comparison,
  and the second comparison is made only when the first one holds.
\<close>

definition in_band :: "json \<Rightarrow> int \<Rightarrow> int \<Rightarrow> pyerr + bool" where
  "in_band f lo hi =
     (if \<not> truthy f then Inr False
      else (case py_ge f lo of
              Inl e \<Rightarrow> Inl e
            | Inr b \<Rightarrow> if b then py_le f hi else Inr False))"

text \<open>Lines 65 to 71, with what is printed.\<close>

definition amd_cpu_field :: "json \<Rightarrow> diag list \<times> (pyerr + string)" where
  "amd_cpu_field f =
     (case in_band f 2640 2660 of
        Inl e \<Rightarrow> ([], Inl e)
      | Inr b \<Rightarrow>
          if b then ([], Inr ''AMD EPYC 2.65GHz'')
          else (case in_band f 2240 2260 of
                  Inl e \<Rightarrow> ([], Inl e)
                | Inr b' \<Rightarrow>
                    if b' then ([], Inr ''AMD EPYC 2.25GHz'')
                    else ([UnknownAmdFrequency f], Inr ''AMD EPYC unknown'')))"

text \<open>
  The value of \<^verbatim>\<open>cpu_field\<close> after line 71, before the normalizer sees it, for the
  lower-cased provider and the dictionary \<^verbatim>\<open>body\<close>.
\<close>

definition resolve_cpu ::
  "pylib \<Rightarrow> string \<Rightarrow> (string \<times> json) list \<Rightarrow> diag list \<times> (pyerr + json)" where
  "resolve_cpu L p body =
     (let cpu_frequency_mhz = get body ''cpuFrequencyMHz'' JNull;
          cpu_field =
            (if p = ''gcp'' then JStr (gcp_cpu_field L (get body ''cpuModel'' (JStr ''unknown'')))
             else get body ''cpuType'' (JStr ''unknown''))
      in (case py_in ''AMD'' cpu_field of
            Inl e \<Rightarrow> ([], Inl e)
          | Inr amd \<Rightarrow>
              if amd \<and> p = ''aws'' then
                (case amd_cpu_field cpu_frequency_mhz of
                   (ds, Inl e) \<Rightarrow> (ds, Inl e)
                 | (ds, Inr s) \<Rightarrow> (ds, Inr (JStr s)))
              else ([], Inr cpu_field)))"

subsection \<open>The record of one invocation line (lines 73 to 141)\<close>

text \<open>The dictionary literal of lines 73 to 103, its keys in the order written.\<close>

definition common_fields ::
  "meta_info \<Rightarrow> (string \<times> json) list \<Rightarrow> pyval \<Rightarrow> json \<Rightarrow> pyrecord" where
  "common_fields m body cpu_type benchmark_type =
     [(''timestamp'', Timestamp (timestamp m)),
      (''provider'', Json (JStr (provider m))),
      (''region'', Json (region m)),
      (''function'', Json (func m)),
      (''memory_size_mb'', Json (JInt (memory m))),
      (''parallel_requests'', Json (JInt (parallel m))),
      (''iterations_per_benchmark'', Json (JInt (iterations m))),
      (''retries'', Json (JInt (retries m))),
      (''cpu_type'', cpu_type),
      (''cpu_model_number'', Json (get body ''cpuModel'' (JStr ''unknown''))),
      (''runtime_ms'', Json (get body ''runtime'' JNull)),
      (''user_runtime_ms'', Json (get body ''userRuntime'' JNull)),
      (''framework_runtime_ms'', Json (get body ''frameworkRuntime'' JNull)),
      (''container_id'', Json (get body ''containerID'' (JStr ''unknown''))),
      (''new_container'', Json (get body ''newcontainer'' JNull)),
      (''invocation_count'', Json (get body ''invocationCount'' JNull)),
      (''instance_id'', Json (get body ''instanceId'' (JStr ''unknown''))),
      (''uuid'', Json (get body ''uuid'' (JStr ''unknown''))),
      (''benchmark_type'', Json benchmark_type),
      (''flags'', Json (get body ''cpuFlags'' (JArr []))),
      (''cpu_frequency'', Json (get body ''cpuFrequencyMHz'' JNull))]"

text \<open>\<^verbatim>\<open>record[key] = header.get(name, "unknown")\<close>.\<close>

definition set_from_header ::
  "string \<Rightarrow> string \<Rightarrow> json \<Rightarrow> pyrecord \<Rightarrow> pyerr + pyrecord" where
  "set_from_header key name header r =
     (case dict_get header name (JStr ''unknown'') of
        Inl e \<Rightarrow> Inl e
      | Inr v \<Rightarrow> Inr (AList.update key (Json v) r))"

text \<open>Lines 106 to 115: the request id of the provider, or the diagnostic.\<close>

definition add_request_id ::
  "string \<Rightarrow> string \<Rightarrow> json \<Rightarrow> pyrecord \<Rightarrow> diag list \<times> (pyerr + pyrecord)" where
  "add_request_id benchmark_file p header r =
     (if p = ''azure'' then
        ([], set_from_header ''azure_invocation_id'' ''azure-invocation-id'' header r)
      else if p = ''gcp'' then
        ([], set_from_header ''gcp_execution_id'' ''function-execution-id'' header r)
      else if p = ''aws'' then
        ([], set_from_header ''aws_request_id'' ''aws-request-id'' header r)
      else if p = ''alibaba'' then
        ([], set_from_header ''alibaba_request_id'' ''ali-request-id'' header r)
      else ([UnknownProvider p benchmark_file], Inr r))"

text \<open>
  Lines 120 to 138, for the dictionary \<^verbatim>\<open>benchmark\<close>: \<^verbatim>\<open>benchmark.get(k)\<close> is
  \<^verbatim>\<open>None\<close> for a key that is absent.
\<close>

definition add_benchmark_fields :: "(string \<times> json) list \<Rightarrow> pyrecord \<Rightarrow> pyrecord" where
  "add_benchmark_fields benchmark r =
     (let ty = get benchmark ''type'' JNull;
          field = (\<lambda>k. Json (get benchmark k JNull))
      in if ty = JStr ''gemm'' then
           AList.update ''multiplication_time_ms'' (field ''multiplicationTimeMs'')
             (AList.update ''matrix_size'' (field ''matrixSize'') r)
         else if ty = JStr ''aesCtr'' then
           AList.update ''encrypt_time_ms'' (field ''encryptTimeMs'')
             (AList.update ''encrypt_size_mb'' (field ''encryptSizeMB'')
               (AList.update ''key_size'' (field ''keySize'') r))
         else if ty = JStr ''gzip'' then
           AList.update ''compress_time_ms'' (field ''compressTimeMS'')
             (AList.update ''compress_size_mb'' (field ''compressSizeMB'') r)
         else if ty = JStr ''sha256'' then
           AList.update ''hash_time_ms'' (field ''hashTimeMs'')
             (AList.update ''hash_size_mb'' (field ''hashSizeMB'') r)
         else if ty = JStr ''json'' then
           AList.update ''json_time_ms'' (field ''jsonTimeMs'') r
         else r)"

text \<open>
  The body of the \<^verbatim>\<open>try\<close> of lines 43 to 141 for one line: what it prints, and the
  record it appends or the exception it raises. The statements are taken in the
  order of the source: \<^verbatim>\<open>data["body"]\<close> needs a dictionary with the key,
  \<^verbatim>\<open>body.get\<close> and \<^verbatim>\<open>benchmark.get\<close> need dictionaries.
\<close>

definition parse_line ::
  "pylib \<Rightarrow> string \<Rightarrow> meta_info \<Rightarrow> string \<Rightarrow> diag list \<times> (pyerr + pyrecord)" where
  "parse_line L benchmark_file m line =
     (case json_loads L line of
        Inl e \<Rightarrow> ([], Inl e)
      | Inr (JObj data) \<Rightarrow>
          (case map_of data ''body'' of
             None \<Rightarrow> ([], Inl KeyError)
           | Some (JObj body) \<Rightarrow>
               (let benchmark = get body ''benchmark'' (JObj [])
                in (case resolve_cpu L (provider m) body of
                      (ds, Inl e) \<Rightarrow> (ds, Inl e)
                    | (ds, Inr cpu_field) \<Rightarrow>
                        (case shorten_cpu_name L cpu_field of
                           Inl e \<Rightarrow> (ds, Inl e)
                         | Inr cpu_type \<Rightarrow>
                             (case benchmark of
                                JObj bm \<Rightarrow>
                                  (let r = common_fields m body cpu_type
                                             (get bm ''type'' (JStr ''unknown''));
                                       header = get data ''header'' (JObj [])
                                   in (case add_request_id benchmark_file (provider m) header r of
                                         (ds', Inl e) \<Rightarrow> (ds @ ds', Inl e)
                                       | (ds', Inr r') \<Rightarrow>
                                           (ds @ ds', Inr (add_benchmark_fields bm r'))))
                              | _ \<Rightarrow> (ds, Inl AttributeError)))))
           | Some _ \<Rightarrow> ([], Inl AttributeError))
      | Inr _ \<Rightarrow> ([], Inl TypeError))"

subsection \<open>The loop over the lines and the whole function\<close>

text \<open>
  One turn of the loop of lines 41 to 148 on the pair of \<^verbatim>\<open>records\<close> and of what
  has been printed: a record is appended, a \<^verbatim>\<open>JSONDecodeError\<close> is skipped in
  silence, any other exception is printed and skipped.
\<close>

definition loop_step ::
  "pylib \<Rightarrow> string \<Rightarrow> meta_info \<Rightarrow> pyrecord list \<times> diag list \<Rightarrow> string
     \<Rightarrow> pyrecord list \<times> diag list" where
  "loop_step L benchmark_file m st line =
     (case st of (records, out) \<Rightarrow>
        (case parse_line L benchmark_file m line of
           (ds, Inr r) \<Rightarrow> (records @ [r], out @ ds)
         | (ds, Inl e) \<Rightarrow>
             if e = JSONDecodeError then (records, out @ ds)
             else (records, out @ ds @ [ErrorParsingLine benchmark_file e])))"

text \<open>
  \<^verbatim>\<open>parse_log_file\<close> on the lines that \<^verbatim>\<open>readlines\<close> returned for the file named
  \<^verbatim>\<open>benchmark_file\<close>: \<open>Inl\<close> is the exception that leaves the function, \<open>Inr\<close> the
  list it returns together with what it printed. Only \<^verbatim>\<open>json.JSONDecodeError\<close> is
  caught around the metadata line; lines 31 to 38 stand outside every \<^verbatim>\<open>try\<close>.
\<close>

definition parse_log_file ::
  "pylib \<Rightarrow> string \<Rightarrow> string list \<Rightarrow> pyerr + (pyrecord list \<times> diag list)" where
  "parse_log_file L benchmark_file lines =
     (case lines of
        [] \<Rightarrow> Inr ([], [])
      | first # rest \<Rightarrow>
          (case json_loads L first of
             Inl e \<Rightarrow>
               if e = JSONDecodeError then Inr ([], [InvalidMetadataLine benchmark_file])
               else Inl e
           | Inr meta \<Rightarrow>
               (case extract_meta L meta of
                  Inl e \<Rightarrow> Inl e
                | Inr m \<Rightarrow> Inr (foldl (loop_step L benchmark_file m) ([], []) rest))))"

section \<open>Tables\<close>

text \<open>
  A cell of a \<^verbatim>\<open>DataFrame\<close>: missing (\<^verbatim>\<open>None\<close>, \<^verbatim>\<open>NaN\<close>, or a key the record does not
  have), a number, a string, a timestamp, or a list or dictionary kept as an object.
  A number stands for every Python value equal to it (\<^verbatim>\<open>True == 1 == 1.0\<close>), so that
  equality of cells is the equality \<^verbatim>\<open>groupby\<close> and \<^verbatim>\<open>isin\<close> use. A row lists its cells by
  column name; the rows of a table are in index order.
\<close>

datatype cell = NA | Num rat | Str string | Time datetime | Obj json

type_synonym row = "(string \<times> cell) list"

record dataframe =
  columns :: "string list"
  rows :: "row list"

definition cell_of :: "row \<Rightarrow> string \<Rightarrow> cell" where
  "cell_of r c = (case map_of r c of None \<Rightarrow> NA | Some v \<Rightarrow> v)"

fun to_cell :: "pyval \<Rightarrow> cell" where
  "to_cell (Json JNull) = NA"
| "to_cell (Json (JBool b)) = Num (if b then 1 else 0)"
| "to_cell (Json (JInt n)) = Num (of_int n)"
| "to_cell (Json (JFloat q)) = Num q"
| "to_cell (Json (JStr s)) = Str s"
| "to_cell (Json v) = Obj v"
| "to_cell (Timestamp t) = Time t"

text \<open>The elements of a list without repetition, each at its first occurrence.\<close>

definition first_occurrences :: "'a list \<Rightarrow> 'a list" where
  "first_occurrences xs = rev (remdups (rev xs))"

text \<open>
  \<^verbatim>\<open>pd.DataFrame(records)\<close> on a list of dictionaries: one row for each record, in
  order; the columns are the keys that occur, and a record without a key has a
  missing cell there.
\<close>

definition DataFrame :: "pyrecord list \<Rightarrow> dataframe" where
  "DataFrame records =
     (let cols = first_occurrences (concat (map (map fst) records))
      in \<lparr>columns = cols,
          rows = map (\<lambda>r. map (\<lambda>c. (c, case map_of r c of None \<Rightarrow> NA | Some v \<Rightarrow> to_cell v)) cols)
                   records\<rparr>)"

subsection \<open>Grouping\<close>

text \<open>
  \<^verbatim>\<open>df.groupby(by)\<close>: a column that does not exist is a \<^verbatim>\<open>KeyError\<close>, a list or a
  dictionary as a key is unhashable (\<^verbatim>\<open>TypeError\<close>). With the default \<^verbatim>\<open>dropna=True\<close> a
  row with a missing key cell belongs to no group. The result lists the key of every
  row (\<open>None\<close> for a row in no group).
\<close>

definition is_obj :: "cell \<Rightarrow> bool" where
  "is_obj c = (case c of Obj v \<Rightarrow> True | _ \<Rightarrow> False)"

definition row_key :: "string list \<Rightarrow> row \<Rightarrow> cell list option" where
  "row_key by r =
     (let ks = map (cell_of r) by in if NA \<in> set ks then None else Some ks)"

definition groupby :: "dataframe \<Rightarrow> string list \<Rightarrow> pyerr + cell list option list" where
  "groupby df by =
     (if \<not> set by \<subseteq> set (columns df) then Inl KeyError
      else if \<exists>r \<in> set (rows df). \<exists>c \<in> set by. is_obj (cell_of r c) then Inl TypeError
      else Inr (map (row_key by) (rows df)))"

text \<open>The groups, each named by its key, and the positions of the rows of a group.\<close>

definition group_names :: "cell list option list \<Rightarrow> cell list list" where
  "group_names keys = first_occurrences (concat (map (\<lambda>k. case k of None \<Rightarrow> [] | Some g \<Rightarrow> [g]) keys))"

definition group_positions :: "cell list option list \<Rightarrow> cell list \<Rightarrow> nat list" where
  "group_positions keys g = filter (\<lambda>i. keys ! i = Some g) [0..<length keys]"

subsection \<open>Comparisons of a column with a number\<close>


fun cell_gt :: "cell \<Rightarrow> rat \<Rightarrow> pyerr + bool" where
  "cell_gt NA k = Inr False"
| "cell_gt (Num a) k = Inr (a > k)"
| "cell_gt v k = Inl TypeError"

fun compare_all :: "('a \<Rightarrow> pyerr + bool) \<Rightarrow> 'a list \<Rightarrow> pyerr + bool list" where
  "compare_all f [] = Inr []"
| "compare_all f (x # xs) =
     (case f x of
        Inl e \<Rightarrow> Inl e
      | Inr b \<Rightarrow> (case compare_all f xs of Inl e \<Rightarrow> Inl e | Inr bs \<Rightarrow> Inr (b # bs)))"

text \<open>\<^verbatim>\<open>df[mask]\<close> for a boolean mask as long as the table.\<close>

definition select_rows :: "dataframe \<Rightarrow> bool list \<Rightarrow> dataframe" where
  "select_rows df msk =
     \<lparr>columns = columns df, rows = map fst (filter snd (zip (rows df) msk))\<rparr>"

section \<open>The metric resolver and the outlier trimmer\<close>






section \<open>The lifecycle filter\<close>

text \<open>
  Lines 199 to 205: the rows whose \<^verbatim>\<open>instance_id\<close> names a group of exactly four rows.
\<close>

definition complete_lifecycle :: "dataframe \<Rightarrow> pyerr + dataframe" where
  "complete_lifecycle df =
     (case groupby df [''instance_id''] of
        Inl e \<Rightarrow> Inl e
      | Inr keys \<Rightarrow>
          (let valid_ids =
                 filter (\<lambda>g. length (group_positions keys g) = 4) (group_names keys)
           in Inr (select_rows df
                     (map (\<lambda>r. [cell_of r ''instance_id''] \<in> set valid_ids) (rows df)))))"

text \<open>Line 208: \<^verbatim>\<open>subset[subset["invocation_count"] > 1]\<close>.\<close>

definition warm_rows :: "dataframe \<Rightarrow> pyerr + dataframe" where
  "warm_rows df =
     (if ''invocation_count'' \<notin> set (columns df) then Inl KeyError
      else (case compare_all (\<lambda>r. cell_gt (cell_of r ''invocation_count'') 1) (rows df) of
              Inl e \<Rightarrow> Inl e
            | Inr msk \<Rightarrow> Inr (select_rows df msk)))"

text \<open>
  \<^verbatim>\<open>filter_full_lifecycle\<close> (lines 197 to 210) on the value of the table: the
  comparison of line 208 is made on the rows the lifecycle filter has kept.
\<close>

definition filter_full_lifecycle :: "dataframe \<Rightarrow> bool \<Rightarrow> pyerr + dataframe" where
  "filter_full_lifecycle df remove_cold =
     (case complete_lifecycle df of
        Inl e \<Rightarrow> Inl e
      | Inr kept \<Rightarrow> if remove_cold then warm_rows kept else Inr kept)"

section \<open>Tables as objects\<close>





section \<open>The directory aggregator\<close>

text \<open>
  A directory: its files, each with the lines \<^verbatim>\<open>readlines\<close> returns for it, and its
  subdirectories, both in the order the directory is listed. Paths are POSIX paths
  (\<^verbatim>\<open>os.sep\<close> is \<^verbatim>\<open>/\<close>); failures of the file system itself are not part of the model.
\<close>

datatype dir_tree = Dir "(string \<times> string list) list" "(string \<times> dir_tree) list"

text \<open>\<^verbatim>\<open>os.path.join(a, b)\<close>.\<close>

definition path_join :: "string \<Rightarrow> string \<Rightarrow> string" where
  "path_join a b =
     (if startswith b ''/'' then b
      else if a = [] \<or> endswith a ''/'' then a @ b
      else a @ ''/'' @ b)"

text \<open>
  \<^verbatim>\<open>os.walk(dir)\<close>, top-down: the directory itself, then each subdirectory in turn.
  An entry is \<^verbatim>\<open>(root, dirs, files)\<close> (\<open>dirpath\<close> below is \<^verbatim>\<open>root\<close>); the files carry their lines.
\<close>

fun os_walk :: "string \<Rightarrow> dir_tree \<Rightarrow> (string \<times> string list \<times> (string \<times> string list) list) list" where
  "os_walk dir (Dir files dirs) =
     (dir, map fst dirs, files)
       # concat (map (\<lambda>d. os_walk (path_join dir (fst d)) (snd d)) dirs)"

text \<open>The loop of lines 224 to 228 over the files of one directory.\<close>

fun parse_files ::
  "pylib \<Rightarrow> string \<Rightarrow> (string \<times> string list) list \<Rightarrow> pyrecord list \<times> diag list
     \<Rightarrow> pyerr + (pyrecord list \<times> diag list)" where
  "parse_files L dirpath [] st = Inr st"
| "parse_files L dirpath ((file, content) # files) (all_records, out) =
     (if endswith file ''.log'' then
        (case parse_log_file L (path_join dirpath file) content of
           Inl e \<Rightarrow> Inl e
         | Inr (records, printed) \<Rightarrow>
             parse_files L dirpath files (all_records @ records, out @ printed))
      else parse_files L dirpath files (all_records, out))"

text \<open>The loop of lines 221 to 228 over what \<^verbatim>\<open>os.walk\<close> yields.\<close>

fun walk_loop ::
  "pylib \<Rightarrow> (string \<times> string list \<times> (string \<times> string list) list) list
     \<Rightarrow> pyrecord list \<times> diag list \<Rightarrow> pyerr + (pyrecord list \<times> diag list)" where
  "walk_loop L [] st = Inr st"
| "walk_loop L ((dirpath, dirs, files) # entries) st =
     (if ''logs'' \<in> set (split_sep CHR ''/'' dirpath) then walk_loop L entries st
      else (case parse_files L dirpath files st of
              Inl e \<Rightarrow> Inl e
            | Inr st' \<Rightarrow> walk_loop L entries st'))"

text \<open>
  \<^verbatim>\<open>load_records_from_directory(log_dir)\<close> for the directory found at \<^verbatim>\<open>log_dir\<close>: the
  table, with what was printed, or the exception that leaves the function.
\<close>

definition load_records_from_directory ::
  "pylib \<Rightarrow> string \<Rightarrow> dir_tree \<Rightarrow> pyerr + (dataframe \<times> diag list)" where
  "load_records_from_directory L log_dir tree =
     (case walk_loop L (os_walk log_dir tree) ([], []) of
        Inl e \<Rightarrow> Inl e
      | Inr (all_records, out) \<Rightarrow> Inr (DataFrame all_records, out))"

section \<open>Notions used to state the properties\<close>

text \<open>
  The number a JSON value denotes, when it is an integer, a float or a boolean (in
  Python \<^verbatim>\<open>True\<close> is the integer 1 and \<^verbatim>\<open>False\<close> the integer 0).
\<close>

fun number :: "json \<Rightarrow> rat option" where
  "number (JInt n) = Some (of_int n)"
| "number (JFloat q) = Some q"
| "number (JBool b) = Some (if b then 1 else 0)"
| "number _ = None"

text \<open>
  What one line contributes to the list of records and to what is printed, read off
  the result of \<open>parse_line\<close>.
\<close>

definition line_records :: "pylib \<Rightarrow> string \<Rightarrow> meta_info \<Rightarrow> string \<Rightarrow> pyrecord list" where
  "line_records L benchmark_file m line =
     (case snd (parse_line L benchmark_file m line) of Inr r \<Rightarrow> [r] | Inl e \<Rightarrow> [])"

definition line_output :: "pylib \<Rightarrow> string \<Rightarrow> meta_info \<Rightarrow> string \<Rightarrow> diag list" where
  "line_output L benchmark_file m line =
     (case parse_line L benchmark_file m line of
        (ds, Inr r) \<Rightarrow> ds
      | (ds, Inl e) \<Rightarrow>
          if e = JSONDecodeError then ds else ds @ [ErrorParsingLine benchmark_file e])"

text \<open>The keys of the dictionary literal, of the request ids and of the benchmark types.\<close>

definition common_keys :: "string list" where
  "common_keys =
     [''timestamp'', ''provider'', ''region'', ''function'', ''memory_size_mb'',
      ''parallel_requests'', ''iterations_per_benchmark'', ''retries'', ''cpu_type'',
      ''cpu_model_number'', ''runtime_ms'', ''user_runtime_ms'', ''framework_runtime_ms'',
      ''container_id'', ''new_container'', ''invocation_count'', ''instance_id'', ''uuid'',
      ''benchmark_type'', ''flags'', ''cpu_frequency'']"

definition request_id_keys :: "string set" where
  "request_id_keys =
     {''azure_invocation_id'', ''gcp_execution_id'', ''aws_request_id'', ''alibaba_request_id''}"

definition all_benchmark_keys :: "string list" where
  "all_benchmark_keys =
     [''matrix_size'', ''multiplication_time_ms'',
      ''key_size'', ''encrypt_size_mb'', ''encrypt_time_ms'',
      ''compress_size_mb'', ''compress_time_ms'',
      ''hash_size_mb'', ''hash_time_ms'',
      ''json_time_ms'']"

text \<open>The table of the specification: the keys that belong to a value of \<^verbatim>\<open>benchmark.type\<close>.\<close>

definition benchmark_keys :: "json \<Rightarrow> string list" where
  "benchmark_keys ty =
     (if ty = JStr ''gemm'' then [''matrix_size'', ''multiplication_time_ms'']
      else if ty = JStr ''aesCtr'' then [''key_size'', ''encrypt_size_mb'', ''encrypt_time_ms'']
      else if ty = JStr ''gzip'' then [''compress_size_mb'', ''compress_time_ms'']
      else if ty = JStr ''sha256'' then [''hash_size_mb'', ''hash_time_ms'']
      else if ty = JStr ''json'' then [''json_time_ms'']
      else [])"

text \<open>
  The files the aggregator is said to process: in a directory whose path has no
  component \<^verbatim>\<open>logs\<close>, those whose name ends in \<^verbatim>\<open>.log\<close>, each with its path; and over a
  tree, those of every directory of the tree.
\<close>

definition selected :: "string \<Rightarrow> (string \<times> string list) list \<Rightarrow> (string \<times> string list) list" where
  "selected dirpath files =
     (if ''logs'' \<in> set (split_sep CHR ''/'' dirpath) then []
      else map (\<lambda>(name, content). (path_join dirpath name, content))
             (filter (\<lambda>(name, content). endswith name ''.log'') files))"

fun log_files :: "string \<Rightarrow> dir_tree \<Rightarrow> (string \<times> string list) list" where
  "log_files dir (Dir files dirs) =
     selected dir files @ concat (map (\<lambda>d. log_files (path_join dir (fst d)) (snd d)) dirs)"

text \<open>
  The outcome of parsing a list of files in turn: the first exception, or all the
  records and all that was printed.
\<close>

fun collect ::
  "(pyerr + (pyrecord list \<times> diag list)) list \<Rightarrow> pyerr + (pyrecord list \<times> diag list)" where
  "collect [] = Inr ([], [])"
| "collect (x # xs) =
     (case x of
        Inl e \<Rightarrow> Inl e
      | Inr (records, printed) \<Rightarrow>
          (case collect xs of
             Inl e \<Rightarrow> Inl e
           | Inr (records', printed') \<Rightarrow> Inr (records @ records', printed @ printed')))"

text \<open>The accumulated records and output, extended by such an outcome.\<close>

definition extend :: "pyrecord list \<times> diag list \<Rightarrow> pyerr + (pyrecord list \<times> diag list)
    \<Rightarrow> pyerr + (pyrecord list \<times> diag list)" where
  "extend st res =
     (case res of Inl e \<Rightarrow> Inl e | Inr (rs, os) \<Rightarrow> Inr (fst st @ rs, snd st @ os))"





text \<open>A cell that compares with a number without raising: a number or a missing value.\<close>

definition plain_cell :: "cell \<Rightarrow> bool" where
  "plain_cell v = (case v of NA \<Rightarrow> True | Num a \<Rightarrow> True | _ \<Rightarrow> False)"

text \<open>
  The rows the lifecycle filter is meant to retain, counting the occurrences of the
  \<^verbatim>\<open>instance_id\<close> of a row in the whole table, and the rows that are not cold.
\<close>

definition lifecycle_rows :: "row list \<Rightarrow> row list" where
  "lifecycle_rows table =
     filter (\<lambda>r. cell_of r ''instance_id'' \<noteq> NA \<and>
                 length (filter (\<lambda>r'. cell_of r' ''instance_id'' = cell_of r ''instance_id'') table) = 4)
       table"

definition warm :: "row \<Rightarrow> bool" where
  "warm r = (case cell_of r ''invocation_count'' of Num a \<Rightarrow> 1 < a | _ \<Rightarrow> False)"

section \<open>A library instance and log lines for the examples\<close>

text \<open>
  \<open>example_lib\<close> gives the library functions on the arguments the examples pass
  them: \<open>example_loads\<close> knows the lines below and takes any other text for
  malformed, \<open>ascii_lower\<close> lowers the letters A to Z, the normalizer returns its
  argument.
\<close>

definition example_meta :: string where
  \<open>example_meta = ''{"timestamp": "2025-01-15T10:30:00Z", "provider": "AWS", "memorySize": 512}''\<close>

definition example_meta_no_timestamp :: string where
  \<open>example_meta_no_timestamp = ''{"provider": "aws", "memorySize": 512}''\<close>

definition example_meta_no_memory :: string where
  \<open>example_meta_no_memory = ''{"timestamp": "2025-01-15T10:30:00Z", "provider": "aws"}''\<close>

definition example_meta_empty_provider :: string where
  \<open>example_meta_empty_provider =
     ''{"timestamp": "2025-01-15T10:30:00Z", "provider": "", "memorySize": 512}''\<close>

definition example_line_gemm :: string where
  \<open>example_line_gemm =
     ''{"header": {"aws-request-id": "r-1"}, "body": {"cpuType": "AMD EPYC", "cpuFrequencyMHz": 2650, "benchmark": {"type": "gemm", "matrixSize": 100}}}''\<close>

definition example_line_plain :: string where
  \<open>example_line_plain = ''{"body": {"cpuType": ""}}''\<close>

definition example_line_stray :: string where
  "example_line_stray = ''{''"

definition example_line_string_frequency :: string where
  \<open>example_line_string_frequency =
     ''{"body": {"cpuType": "AMD EPYC", "cpuFrequencyMHz": "2650"}}''\<close>

definition example_meta_json :: json where
  "example_meta_json =
     JObj [(''timestamp'', JStr ''2025-01-15T10:30:00Z''), (''provider'', JStr ''AWS''),
           (''memorySize'', JInt 512)]"

definition example_loads :: "string \<Rightarrow> pyerr + json" where
  "example_loads s =
     (case map_of
        [(example_meta, example_meta_json),
         (example_meta_no_timestamp,
          JObj [(''provider'', JStr ''aws''), (''memorySize'', JInt 512)]),
         (example_meta_no_memory,
          JObj [(''timestamp'', JStr ''2025-01-15T10:30:00Z''), (''provider'', JStr ''aws'')]),
         (example_meta_empty_provider,
          JObj [(''timestamp'', JStr ''2025-01-15T10:30:00Z''), (''provider'', JStr []),
                (''memorySize'', JInt 512)]),
         (example_line_gemm,
          JObj [(''header'', JObj [(''aws-request-id'', JStr ''r-1'')]),
                (''body'',
                 JObj [(''cpuType'', JStr ''AMD EPYC''), (''cpuFrequencyMHz'', JInt 2650),
                       (''benchmark'',
                        JObj [(''type'', JStr ''gemm''), (''matrixSize'', JInt 100)])])]),
         (example_line_plain, JObj [(''body'', JObj [(''cpuType'', JStr [])])]),
         (example_line_string_frequency,
          JObj [(''body'',
                 JObj [(''cpuType'', JStr ''AMD EPYC''),
                       (''cpuFrequencyMHz'', JStr ''2650'')])])] s of
        Some v \<Rightarrow> Inr v
      | None \<Rightarrow> Inl JSONDecodeError)"

definition ascii_lower :: "string \<Rightarrow> string" where
  "ascii_lower s =
     map (\<lambda>c. case map_of (zip ''ABCDEFGHIJKLMNOPQRSTUVWXYZ'' ''abcdefghijklmnopqrstuvwxyz'') c of
                 Some d \<Rightarrow> d
               | None \<Rightarrow> c) s"

definition example_lib :: pylib where
  "example_lib =
     \<lparr>json_loads = example_loads,
      fromisoformat =
        (\<lambda>s. if s = ''2025-01-15T10:30:00+00:00'' then Some (Datetime 1736937000000000)
              else None),
      str_lower = ascii_lower,
      int_of_str = (\<lambda>s. None),
      repr_of = (\<lambda>v. []),
      shorten_cpu_name = (\<lambda>v. Inr (Json v))\<rparr>"

text \<open>
  The tree of the specification's example, \<^verbatim>\<open>root/logs/x.log\<close> beside
  \<^verbatim>\<open>root/run1/y.log\<close>, and a tree whose only log file has no timestamp.
\<close>

definition example_tree :: dir_tree where
  "example_tree =
     Dir [(''notes.txt'', [''hello''])]
         [(''logs'', Dir [(''x.log'', [example_meta_no_timestamp])] []),
          (''run1'', Dir [(''y.log'', [example_meta, example_line_gemm])] [])]"

definition example_tree_raising :: dir_tree where
  "example_tree_raising =
     Dir [] [(''run1'', Dir [(''a.log'', [example_meta_no_timestamp]),
                             (''y.log'', [example_meta, example_line_gemm])] [])]"

definition example_tree_no_timestamp :: dir_tree where
  "example_tree_no_timestamp =
     Dir [] [(''run1'', Dir [(''y.log'', [example_meta_no_timestamp, example_line_plain])] [])]"

text \<open>The metadata and the records the example lines give.\<close>

definition example_meta_info :: meta_info where
  "example_meta_info =
     \<lparr>timestamp = Datetime 1736937000000000, provider = ''aws'', region = JStr ''unknown'',
      memory = 512, func = JStr ''unknown'', parallel = 0, iterations = 0, retries = 0\<rparr>"

definition example_record_gemm :: pyrecord where
  "example_record_gemm =
     [(''timestamp'', Timestamp (Datetime 1736937000000000)),
      (''provider'', Json (JStr ''aws'')),
      (''region'', Json (JStr ''unknown'')),
      (''function'', Json (JStr ''unknown'')),
      (''memory_size_mb'', Json (JInt 512)),
      (''parallel_requests'', Json (JInt 0)),
      (''iterations_per_benchmark'', Json (JInt 0)),
      (''retries'', Json (JInt 0)),
      (''cpu_type'', Json (JStr ''AMD EPYC 2.65GHz'')),
      (''cpu_model_number'', Json (JStr ''unknown'')),
      (''runtime_ms'', Json JNull),
      (''user_runtime_ms'', Json JNull),
      (''framework_runtime_ms'', Json JNull),
      (''container_id'', Json (JStr ''unknown'')),
      (''new_container'', Json JNull),
      (''invocation_count'', Json JNull),
      (''instance_id'', Json (JStr ''unknown'')),
      (''uuid'', Json (JStr ''unknown'')),
      (''benchmark_type'', Json (JStr ''gemm'')),
      (''flags'', Json (JArr [])),
      (''cpu_frequency'', Json (JInt 2650)),
      (''aws_request_id'', Json (JStr ''r-1'')),
      (''matrix_size'', Json (JInt 100)),
      (''multiplication_time_ms'', Json JNull)]"

text \<open>The record of \<open>example_line_plain\<close> under a metadata line with the provider \<open>p\<close>.\<close>

definition example_record_plain :: "string \<Rightarrow> pyrecord" where
  "example_record_plain p =
     [(''timestamp'', Timestamp (Datetime 1736937000000000)),
      (''provider'', Json (JStr p)),
      (''region'', Json (JStr ''unknown'')),
      (''function'', Json (JStr ''unknown'')),
      (''memory_size_mb'', Json (JInt 512)),
      (''parallel_requests'', Json (JInt 0)),
      (''iterations_per_benchmark'', Json (JInt 0)),
      (''retries'', Json (JInt 0)),
      (''cpu_type'', Json (JStr [])),
      (''cpu_model_number'', Json (JStr ''unknown'')),
      (''runtime_ms'', Json JNull),
      (''user_runtime_ms'', Json JNull),
      (''framework_runtime_ms'', Json JNull),
      (''container_id'', Json (JStr ''unknown'')),
      (''new_container'', Json JNull),
      (''invocation_count'', Json JNull),
      (''instance_id'', Json (JStr ''unknown'')),
      (''uuid'', Json (JStr ''unknown'')),
      (''benchmark_type'', Json (JStr ''unknown'')),
      (''flags'', Json (JArr [])),
      (''cpu_frequency'', Json JNull)]"






definition example_call :: "string \<Rightarrow> int \<Rightarrow> row" where
  "example_call i n = [(''instance_id'', Str i), (''invocation_count'', Num (of_int n))]"

definition example_lifecycle :: dataframe where
  "example_lifecycle =
     \<lparr>columns = [''instance_id'', ''invocation_count''],
      rows = [example_call ''A'' 1, example_call ''B'' 1, example_call ''D'' 1,
              example_call ''A'' 2, example_call ''D'' 2, example_call ''B'' 2,
              example_call ''A'' 3, example_call ''D'' 3, example_call ''D'' 4,
              example_call ''B'' 3, example_call ''A'' 4, example_call ''D'' 5]\<rparr>"

section \<open>Properties of the record extractor\<close>

lemmas example_defs =
  example_lib_def example_loads_def example_meta_def example_meta_json_def
  example_meta_no_timestamp_def example_meta_no_memory_def example_meta_empty_provider_def
  example_line_gemm_def example_line_plain_def example_line_stray_def
  example_line_string_frequency_def ascii_lower_def
  example_meta_info_def example_record_gemm_def example_record_plain_def

lemmas parse_defs =
  parse_log_file_def extract_meta_def meta_timestamp_def meta_provider_def replace_Z_def
  get_def loop_step_def parse_line_def resolve_cpu_def amd_cpu_field_def in_band_def
  gcp_cpu_field_def GCP_CPU_MAPPING_def common_fields_def add_request_id_def
  set_from_header_def add_benchmark_fields_def Let_def

subsection \<open>Strings\<close>

lemma startswith_iff: "startswith s p \<longleftrightarrow> (\<exists>t. s = p @ t)"
  by (induction s p rule: startswith.induct) auto

lemma str_contains_iff: "str_contains s n \<longleftrightarrow> (\<exists>a b. s = a @ n @ b)"
proof (induction s)
  case Nil
  then show ?case by auto
next
  case (Cons c cs)
  show ?case
  proof
    assume "str_contains (c # cs) n"
    then consider "startswith (c # cs) n" | "str_contains cs n" by auto
    then show "\<exists>a b. c # cs = a @ n @ b"
    proof cases
      case 1
      then obtain t where "c # cs = n @ t" by (auto simp: startswith_iff)
      then have "c # cs = [] @ n @ t" by simp
      then show ?thesis by blast
    next
      case 2
      then obtain a b where "cs = a @ n @ b" using Cons.IH by auto
      then have "c # cs = (c # a) @ n @ b" by simp
      then show ?thesis by blast
    qed
  next
    assume "\<exists>a b. c # cs = a @ n @ b"
    then obtain a b where ab: "c # cs = a @ n @ b" by auto
    show "str_contains (c # cs) n"
    proof (cases a)
      case Nil
      then have "startswith (c # cs) n" using ab by (auto simp: startswith_iff)
      then show ?thesis by simp
    next
      case (Cons x xs)
      then have "cs = xs @ n @ b" using ab by simp
      then have "str_contains cs n" using Cons.IH by blast
      then show ?thesis by simp
    qed
  qed
qed

lemma endswith_iff: "endswith s suf \<longleftrightarrow> (\<exists>p. s = p @ suf)"
proof -
  have "(\<exists>t. rev s = rev suf @ t) \<longleftrightarrow> (\<exists>p. s = p @ suf)"
  proof
    assume "\<exists>t. rev s = rev suf @ t"
    then obtain t where "rev s = rev suf @ t" by auto
    then have "s = rev t @ suf" by (metis rev_append rev_rev_ident)
    then show "\<exists>p. s = p @ suf" by blast
  next
    assume "\<exists>p. s = p @ suf"
    then obtain p where "s = p @ suf" by auto
    then have "rev s = rev suf @ rev p" by simp
    then show "\<exists>t. rev s = rev suf @ t" by blast
  qed
  then show ?thesis by (simp add: endswith_def startswith_iff)
qed

subsection \<open>The loop and the origin of a record\<close>

lemma loop_step_eq:
  "loop_step L f m (recs, out) line = (recs @ line_records L f m line, out @ line_output L f m line)"
  by (auto simp: loop_step_def line_records_def line_output_def split: prod.splits sum.splits)

lemma foldl_loop_step:
  "foldl (loop_step L f m) (recs, out) ls =
     (recs @ concat (map (line_records L f m) ls), out @ concat (map (line_output L f m) ls))"
  by (induction ls arbitrary: recs out) (simp_all add: loop_step_eq)

lemma parse_log_file_valid_meta:
  assumes "json_loads L first = Inr meta" "extract_meta L meta = Inr m"
  shows "parse_log_file L f (first # rest) =
     Inr (concat (map (line_records L f m) rest), concat (map (line_output L f m) rest))"
  using assms by (simp add: parse_log_file_def foldl_loop_step)

lemma record_origin:
  assumes "parse_log_file L f lines = Inr (recs, out)" "r \<in> set recs"
  shows "\<exists>first rest meta m line ds. lines = first # rest \<and> json_loads L first = Inr meta \<and>
           extract_meta L meta = Inr m \<and> line \<in> set rest \<and> parse_line L f m line = (ds, Inr r)"
proof (cases lines)
  case Nil
  with assms show ?thesis by (simp add: parse_log_file_def)
next
  case (Cons first rest)
  show ?thesis
  proof (cases "json_loads L first")
    case (Inl e)
    with assms Cons show ?thesis by (auto simp: parse_log_file_def split: if_splits)
  next
    case (Inr meta)
    show ?thesis
    proof (cases "extract_meta L meta")
      case (Inl e)
      with assms Cons Inr show ?thesis by (simp add: parse_log_file_def)
    next
      case m: (Inr m)
      from assms(1) Cons have "recs = concat (map (line_records L f m) rest)"
        by (simp add: parse_log_file_valid_meta[OF Inr m])
      with assms(2) obtain line where l: "line \<in> set rest" "r \<in> set (line_records L f m line)"
        by auto
      then obtain ds where "parse_line L f m line = (ds, Inr r)"
        by (cases "parse_line L f m line") (auto simp: line_records_def split: sum.splits)
      with l Cons Inr m show ?thesis by blast
    qed
  qed
qed

lemma parse_line_Inr:
  assumes "parse_line L f m line = (ds, Inr r)"
  shows "\<exists>data body bm ds1 ds2 cpu_field cpu_type r'.
           json_loads L line = Inr (JObj data) \<and> map_of data ''body'' = Some (JObj body) \<and>
           get body ''benchmark'' (JObj []) = JObj bm \<and>
           resolve_cpu L (provider m) body = (ds1, Inr cpu_field) \<and>
           shorten_cpu_name L cpu_field = Inr cpu_type \<and>
           add_request_id f (provider m) (get data ''header'' (JObj []))
             (common_fields m body cpu_type (get bm ''type'' (JStr ''unknown''))) = (ds2, Inr r') \<and>
           r = add_benchmark_fields bm r' \<and> ds = ds1 @ ds2"
  using assms
  by (auto simp: parse_line_def Let_def split: sum.splits json.splits option.splits prod.splits)

subsection \<open>The keys of a record\<close>

lemma map_fst_common_fields: "map fst (common_fields m body c t) = common_keys"
  by (simp add: common_fields_def common_keys_def)



lemma common_keys_disjoint:
  "k \<in> set common_keys \<Longrightarrow> k \<notin> request_id_keys \<and> k \<notin> set all_benchmark_keys"
  by (auto simp: common_keys_def request_id_keys_def all_benchmark_keys_def)

lemma request_keys_not_benchmark: "k \<in> request_id_keys \<Longrightarrow> k \<notin> set all_benchmark_keys"
  by (auto simp: request_id_keys_def all_benchmark_keys_def)

lemma benchmark_keys_subset: "set (benchmark_keys ty) \<subseteq> set all_benchmark_keys"
  by (auto simp: benchmark_keys_def all_benchmark_keys_def)

lemma keys_add_benchmark_fields:
  "fst ` set (add_benchmark_fields bm r) = fst ` set r \<union> set (benchmark_keys (get bm ''type'' JNull))"
  by (auto simp: add_benchmark_fields_def benchmark_keys_def Let_def dom_update)

lemma map_of_add_benchmark_fields:
  "k \<notin> set all_benchmark_keys \<Longrightarrow> map_of (add_benchmark_fields bm r) k = map_of r k"
  by (auto simp: add_benchmark_fields_def all_benchmark_keys_def Let_def update_conv')

lemma set_from_header_Inr:
  "set_from_header key name header r = Inr r' \<Longrightarrow>
     \<exists>hdr. header = JObj hdr \<and> r' = AList.update key (Json (get hdr name (JStr ''unknown''))) r"
  by (cases header) (auto simp: set_from_header_def get_def split: option.splits)

lemma add_request_id_cases:
  assumes "add_request_id f p header r = (ds, Inr r')"
  shows "(p = ''azure'' \<and> ds = [] \<and> (\<exists>hdr. header = JObj hdr \<and>
            r' = AList.update ''azure_invocation_id'' (Json (get hdr ''azure-invocation-id'' (JStr ''unknown''))) r))
       \<or> (p = ''gcp'' \<and> ds = [] \<and> (\<exists>hdr. header = JObj hdr \<and>
            r' = AList.update ''gcp_execution_id'' (Json (get hdr ''function-execution-id'' (JStr ''unknown''))) r))
       \<or> (p = ''aws'' \<and> ds = [] \<and> (\<exists>hdr. header = JObj hdr \<and>
            r' = AList.update ''aws_request_id'' (Json (get hdr ''aws-request-id'' (JStr ''unknown''))) r))
       \<or> (p = ''alibaba'' \<and> ds = [] \<and> (\<exists>hdr. header = JObj hdr \<and>
            r' = AList.update ''alibaba_request_id'' (Json (get hdr ''ali-request-id'' (JStr ''unknown''))) r))
       \<or> (p \<notin> {''azure'', ''gcp'', ''aws'', ''alibaba''} \<and> ds = [UnknownProvider p f] \<and> r' = r)"
  using assms
  by (auto simp: add_request_id_def split: if_splits dest!: set_from_header_Inr)

subsection \<open>CPU resolution\<close>

lemma resolve_cpu_gcp:
  "resolve_cpu L ''gcp'' body =
     (let s = py_str L (get body ''cpuModel'' (JStr ''unknown''))
      in ([], Inr (JStr
            (if s = ''1'' then ''Model 1 (AMD)''
             else if s = ''17'' then ''Model 17 (AMD)''
             else if s = ''85'' then ''Model 85 (Intel)''
             else if s = ''106'' then ''Model 106 (Intel)''
             else if s = ''143'' then ''Model 143 (Intel)''
             else if s = ''173'' then ''Model 173 (Intel)''
             else ''Model '' @ s @ '' (Unknown)''))))"
  by (simp add: resolve_cpu_def gcp_cpu_field_def GCP_CPU_MAPPING_def Let_def)

lemma in_band_number:
  "number f = Some x \<Longrightarrow> 0 < lo \<Longrightarrow> in_band f lo hi = Inr (of_int lo \<le> x \<and> x \<le> of_int hi)"
  by (cases f) (auto simp: in_band_def)

lemma in_band_raises:
  "truthy f \<Longrightarrow> number f = None \<Longrightarrow> in_band f lo hi = Inl TypeError"
  by (cases f) (auto simp: in_band_def)

lemma in_band_falsy:
  "\<not> truthy f \<Longrightarrow> in_band f lo hi = Inr False"
  by (simp add: in_band_def)

lemma resolve_cpu_aws:
  assumes "get body ''cpuType'' (JStr ''unknown'') = JStr c" "str_contains c ''AMD''"
    and "get body ''cpuFrequencyMHz'' JNull = f"
  shows "resolve_cpu L ''aws'' body =
      (if truthy f \<and> number f = None then ([], Inl TypeError)
       else if \<exists>x. number f = Some x \<and> 2640 \<le> x \<and> x \<le> 2660
         then ([], Inr (JStr ''AMD EPYC 2.65GHz''))
       else if \<exists>x. number f = Some x \<and> 2240 \<le> x \<and> x \<le> 2260
         then ([], Inr (JStr ''AMD EPYC 2.25GHz''))
       else ([UnknownAmdFrequency f], Inr (JStr ''AMD EPYC unknown'')))"
proof -
  have r: "resolve_cpu L ''aws'' body =
      (case amd_cpu_field f of (ds, Inl e) \<Rightarrow> (ds, Inl e) | (ds, Inr s) \<Rightarrow> (ds, Inr (JStr s)))"
    using assms(1,2,3) by (simp add: resolve_cpu_def Let_def)
  show ?thesis
  proof (cases "number f")
    case (Some x)
    show ?thesis unfolding r amd_cpu_field_def
      by (simp add: in_band_number[OF Some] Some)
  next
    case None
    show ?thesis
    proof (cases "truthy f")
      case True
      then show ?thesis unfolding r amd_cpu_field_def
        by (simp add: in_band_raises[OF True None] None)
    next
      case False
      then show ?thesis unfolding r amd_cpu_field_def
        by (simp add: in_band_falsy[OF False] None)
    qed
  qed
qed

text \<open>
  Claim C2, as amended. The value of \<^verbatim>\<open>cpu_field\<close> before normalization: for the
  provider \<^verbatim>\<open>gcp\<close> it is the entry of the fixed table for \<^verbatim>\<open>str\<close> of \<^verbatim>\<open>body.cpuModel\<close>
  (\<^verbatim>\<open>"unknown"\<close> when absent), and \<^verbatim>\<open>Model {model} (Unknown)\<close> for a model the table
  does not list; for the provider \<^verbatim>\<open>aws\<close> and a \<^verbatim>\<open>cpuType\<close> string that contains
  \<^verbatim>\<open>AMD\<close>, whatever \<^verbatim>\<open>cpuFrequencyMHz\<close> holds: a number from 2640 to 2660 gives
  \<^verbatim>\<open>AMD EPYC 2.65GHz\<close>, one from 2240 to 2260 gives \<^verbatim>\<open>AMD EPYC 2.25GHz\<close>; any other
  number, and a frequency that is absent, \<^verbatim>\<open>null\<close> or empty (a value Python takes for
  false), gives \<^verbatim>\<open>AMD EPYC unknown\<close> together with the diagnostic; a non-empty
  string, list or dictionary makes the comparison of line 65 raise \<^verbatim>\<open>TypeError\<close>, so
  that no CPU field is resolved for the line.
\<close>

theorem cpu_resolution:
  "resolve_cpu L ''gcp'' body =
     (let s = py_str L (get body ''cpuModel'' (JStr ''unknown''))
      in ([], Inr (JStr
            (if s = ''1'' then ''Model 1 (AMD)''
             else if s = ''17'' then ''Model 17 (AMD)''
             else if s = ''85'' then ''Model 85 (Intel)''
             else if s = ''106'' then ''Model 106 (Intel)''
             else if s = ''143'' then ''Model 143 (Intel)''
             else if s = ''173'' then ''Model 173 (Intel)''
             else ''Model '' @ s @ '' (Unknown)''))))
   \<and> (get body ''cpuType'' (JStr ''unknown'') = JStr c \<and> (\<exists>a b. c = a @ ''AMD'' @ b) \<and>
      get body ''cpuFrequencyMHz'' JNull = f \<longrightarrow>
      resolve_cpu L ''aws'' body =
        (if truthy f \<and> number f = None then ([], Inl TypeError)
         else if \<exists>x. number f = Some x \<and> 2640 \<le> x \<and> x \<le> 2660
           then ([], Inr (JStr ''AMD EPYC 2.65GHz''))
         else if \<exists>x. number f = Some x \<and> 2240 \<le> x \<and> x \<le> 2260
           then ([], Inr (JStr ''AMD EPYC 2.25GHz''))
         else ([UnknownAmdFrequency f], Inr (JStr ''AMD EPYC unknown''))))"
proof (intro conjI impI)
  show "resolve_cpu L ''gcp'' body =
     (let s = py_str L (get body ''cpuModel'' (JStr ''unknown''))
      in ([], Inr (JStr
            (if s = ''1'' then ''Model 1 (AMD)''
             else if s = ''17'' then ''Model 17 (AMD)''
             else if s = ''85'' then ''Model 85 (Intel)''
             else if s = ''106'' then ''Model 106 (Intel)''
             else if s = ''143'' then ''Model 143 (Intel)''
             else if s = ''173'' then ''Model 173 (Intel)''
             else ''Model '' @ s @ '' (Unknown)''))))"
    by (rule resolve_cpu_gcp)
next
  assume a: "get body ''cpuType'' (JStr ''unknown'') = JStr c \<and> (\<exists>a b. c = a @ ''AMD'' @ b) \<and>
      get body ''cpuFrequencyMHz'' JNull = f"
  then have "str_contains c ''AMD''" by (simp only: str_contains_iff)
  with a show "resolve_cpu L ''aws'' body =
        (if truthy f \<and> number f = None then ([], Inl TypeError)
         else if \<exists>x. number f = Some x \<and> 2640 \<le> x \<and> x \<le> 2660
           then ([], Inr (JStr ''AMD EPYC 2.65GHz''))
         else if \<exists>x. number f = Some x \<and> 2240 \<le> x \<and> x \<le> 2260
           then ([], Inr (JStr ''AMD EPYC 2.25GHz''))
         else ([UnknownAmdFrequency f], Inr (JStr ''AMD EPYC unknown'')))"
    by (intro resolve_cpu_aws) simp_all
qed

theorem cpu_resolution_witness:
  "resolve_cpu example_lib ''gcp'' [(''cpuModel'', JStr ''85'')] = ([], Inr (JStr ''Model 85 (Intel)''))
   \<and> resolve_cpu example_lib ''gcp'' [(''cpuModel'', JStr ''999'')] = ([], Inr (JStr ''Model 999 (Unknown)''))
   \<and> resolve_cpu example_lib ''aws'' [(''cpuType'', JStr ''AMD EPYC''), (''cpuFrequencyMHz'', JInt 2650)]
       = ([], Inr (JStr ''AMD EPYC 2.65GHz''))
   \<and> resolve_cpu example_lib ''aws'' [(''cpuType'', JStr ''AMD EPYC''), (''cpuFrequencyMHz'', JInt 2250)]
       = ([], Inr (JStr ''AMD EPYC 2.25GHz''))
   \<and> resolve_cpu example_lib ''aws'' [(''cpuType'', JStr ''AMD EPYC''), (''cpuFrequencyMHz'', JInt 2300)]
       = ([UnknownAmdFrequency (JInt 2300)], Inr (JStr ''AMD EPYC unknown''))
   \<and> resolve_cpu example_lib ''aws'' [(''cpuType'', JStr ''AMD EPYC'')]
       = ([UnknownAmdFrequency JNull], Inr (JStr ''AMD EPYC unknown''))
   \<and> resolve_cpu example_lib ''aws'' [(''cpuType'', JStr ''AMD EPYC''), (''cpuFrequencyMHz'', JStr [])]
       = ([UnknownAmdFrequency (JStr [])], Inr (JStr ''AMD EPYC unknown''))
   \<and> resolve_cpu example_lib ''aws''
        [(''cpuType'', JStr ''AMD EPYC''), (''cpuFrequencyMHz'', JBool True)]
       = ([UnknownAmdFrequency (JBool True)], Inr (JStr ''AMD EPYC unknown''))
   \<and> resolve_cpu example_lib ''aws''
        [(''cpuType'', JStr ''AMD EPYC''), (''cpuFrequencyMHz'', JArr [JInt 2650])]
       = ([], Inl TypeError)"
proof -
  have amd: "\<exists>a b. ''AMD EPYC'' = a @ ''AMD'' @ b"
    by (rule exI[of _ "[]"], rule exI[of _ "'' EPYC''"]) simp
  note t = cpu_resolution[of example_lib _ "''AMD EPYC''"]
  show ?thesis
    using t[of "[(''cpuModel'', JStr ''85'')]"]
      t[of "[(''cpuModel'', JStr ''999'')]"]
      t[of "[(''cpuType'', JStr ''AMD EPYC''), (''cpuFrequencyMHz'', JInt 2650)]" "JInt 2650"]
      t[of "[(''cpuType'', JStr ''AMD EPYC''), (''cpuFrequencyMHz'', JInt 2250)]" "JInt 2250"]
      t[of "[(''cpuType'', JStr ''AMD EPYC''), (''cpuFrequencyMHz'', JInt 2300)]" "JInt 2300"]
      t[of "[(''cpuType'', JStr ''AMD EPYC'')]" JNull]
      t[of "[(''cpuType'', JStr ''AMD EPYC''), (''cpuFrequencyMHz'', JStr [])]" "JStr []"]
      t[of "[(''cpuType'', JStr ''AMD EPYC''), (''cpuFrequencyMHz'', JBool True)]" "JBool True"]
      t[of "[(''cpuType'', JStr ''AMD EPYC''), (''cpuFrequencyMHz'', JArr [JInt 2650])]"
           "JArr [JInt 2650]"]
      amd
    by (simp add: get_def)
qed

text \<open>
  Claim C2 as stated fails: with the provider \<^verbatim>\<open>aws\<close>, a \<^verbatim>\<open>cpuType\<close> that contains \<^verbatim>\<open>AMD\<close>
  and the frequency given as the string \<^verbatim>\<open>"2650"\<close>, line 65 compares a string with an
  integer and raises \<^verbatim>\<open>TypeError\<close>: the CPU field is not \<^verbatim>\<open>AMD EPYC unknown\<close>, the line
  is reported and skipped, and the file gives no record for it.
\<close>

theorem string_frequency_counterexample:
  "resolve_cpu example_lib ''aws''
     [(''cpuType'', JStr ''AMD EPYC''), (''cpuFrequencyMHz'', JStr ''2650'')]
     = ([], Inl TypeError)
   \<and> parse_log_file example_lib ''run.log'' [example_meta, example_line_string_frequency]
     = Inr ([], [ErrorParsingLine ''run.log'' TypeError])"
  by (simp add: example_defs parse_defs)

subsection \<open>The examples, evaluated\<close>

lemma ex_meta: "json_loads example_lib example_meta = Inr example_meta_json"
  by (simp add: example_defs)

lemma ex_meta_info: "extract_meta example_lib example_meta_json = Inr example_meta_info"
  by (simp add: example_defs parse_defs)

lemma ex_stray: "json_loads example_lib example_line_stray = Inl JSONDecodeError"
  by (simp add: example_defs)

lemma ex_parse:
  "parse_log_file example_lib ''run.log'' [example_meta, example_line_gemm, example_line_plain]
     = Inr ([example_record_gemm, example_record_plain ''aws'' @ [(''aws_request_id'', Json (JStr ''unknown''))]], [])"
  by (simp add: example_defs parse_defs)

lemma ex_parse_gemm:
  "parse_log_file example_lib ''run.log'' [example_meta, example_line_gemm]
     = Inr ([example_record_gemm], [])"
  by (simp add: example_defs parse_defs)

lemma ex_parse_unknown_provider:
  "parse_log_file example_lib ''run.log'' [example_meta_empty_provider, example_line_plain]
     = Inr ([example_record_plain []], [UnknownProvider [] ''run.log''])"
  by (simp add: example_defs parse_defs)

subsection \<open>One record for each line that builds one\<close>

text \<open>
  Claim C5. With a metadata line that parses and whose fields are read, the records
  returned are those of the lines on which the body of the loop builds one, one for
  each such line and in the order of the lines (\<open>line_records\<close> has the record of a
  line, or nothing); a line that is not valid JSON adds neither a record nor a
  message, and taking it out of the file changes nothing of what is returned or
  printed.
\<close>

theorem records_in_line_order:
  assumes "json_loads L first = Inr meta" "extract_meta L meta = Inr m"
  shows "parse_log_file L f (first # rest) =
           Inr (concat (map (line_records L f m) rest), concat (map (line_output L f m) rest))
       \<and> (\<forall>line. length (line_records L f m line) \<le> 1
             \<and> (\<forall>r. line_records L f m line = [r] \<longleftrightarrow> (\<exists>ds. parse_line L f m line = (ds, Inr r))))
       \<and> (\<forall>xs bad ys. json_loads L bad = Inl JSONDecodeError \<longrightarrow>
             parse_log_file L f (first # xs @ bad # ys) = parse_log_file L f (first # xs @ ys))"
proof (intro conjI allI impI)
  show "parse_log_file L f (first # rest) =
           Inr (concat (map (line_records L f m) rest), concat (map (line_output L f m) rest))"
    by (rule parse_log_file_valid_meta[OF assms])
next
  fix line
  show "length (line_records L f m line) \<le> 1"
    by (simp add: line_records_def split: sum.splits)
next
  fix line r
  show "line_records L f m line = [r] \<longleftrightarrow> (\<exists>ds. parse_line L f m line = (ds, Inr r))"
    by (cases "parse_line L f m line") (auto simp: line_records_def split: sum.splits)
next
  fix xs bad ys
  assume bad: "json_loads L bad = Inl JSONDecodeError"
  then have "parse_line L f m bad = ([], Inl JSONDecodeError)"
    by (simp add: parse_line_def)
  then have "line_records L f m bad = []" "line_output L f m bad = []"
    by (simp_all add: line_records_def line_output_def)
  then show "parse_log_file L f (first # xs @ bad # ys) = parse_log_file L f (first # xs @ ys)"
    by (simp add: parse_log_file_valid_meta[OF assms])
qed

theorem records_in_line_order_witness:
  "json_loads example_lib example_meta = Inr example_meta_json
   \<and> extract_meta example_lib example_meta_json = Inr example_meta_info
   \<and> json_loads example_lib example_line_stray = Inl JSONDecodeError
   \<and> parse_log_file example_lib ''run.log''
        [example_meta, example_line_gemm, example_line_stray, example_line_plain]
      = Inr ([example_record_gemm,
              example_record_plain ''aws'' @ [(''aws_request_id'', Json (JStr ''unknown''))]], [])"
proof -
  from records_in_line_order[OF ex_meta ex_meta_info, of "''run.log''" "[]"]
  have "parse_log_file example_lib ''run.log''
          (example_meta # [example_line_gemm] @ example_line_stray # [example_line_plain])
        = parse_log_file example_lib ''run.log''
          (example_meta # [example_line_gemm] @ [example_line_plain])"
    using ex_stray by blast
  then show ?thesis using ex_meta ex_meta_info ex_stray ex_parse by simp
qed

subsection \<open>What a returned record was built from\<close>

lemma produced_record:
  assumes "parse_log_file L f lines = Inr (recs, out)" "r \<in> set recs"
  shows "\<exists>first rest meta m line data body bm ds1 ds2 cpu_field cpu_type r'.
           lines = first # rest \<and> json_loads L first = Inr meta \<and> extract_meta L meta = Inr m \<and>
           line \<in> set rest \<and>
           json_loads L line = Inr (JObj data) \<and> map_of data ''body'' = Some (JObj body) \<and>
           get body ''benchmark'' (JObj []) = JObj bm \<and>
           resolve_cpu L (provider m) body = (ds1, Inr cpu_field) \<and>
           shorten_cpu_name L cpu_field = Inr cpu_type \<and>
           add_request_id f (provider m) (get data ''header'' (JObj []))
             (common_fields m body cpu_type (get bm ''type'' (JStr ''unknown''))) = (ds2, Inr r') \<and>
           r = add_benchmark_fields bm r' \<and> set (ds1 @ ds2) \<subseteq> set out"
proof -
  from record_origin[OF assms] obtain first rest meta m line ds where
    o: "lines = first # rest" "json_loads L first = Inr meta" "extract_meta L meta = Inr m"
       "line \<in> set rest" "parse_line L f m line = (ds, Inr r)"
    by blast
  from assms(1) o have "out = concat (map (line_output L f m) rest)"
    by (simp add: parse_log_file_valid_meta)
  moreover have "line_output L f m line = ds"
    using o(5) by (simp add: line_output_def)
  ultimately have sub: "set ds \<subseteq> set out" using o(4) by auto
  from parse_line_Inr[OF o(5)] obtain data body bm ds1 ds2 cpu_field cpu_type r' where
    p: "json_loads L line = Inr (JObj data)" "map_of data ''body'' = Some (JObj body)"
       "get body ''benchmark'' (JObj []) = JObj bm"
       "resolve_cpu L (provider m) body = (ds1, Inr cpu_field)"
       "shorten_cpu_name L cpu_field = Inr cpu_type"
       "add_request_id f (provider m) (get data ''header'' (JObj []))
             (common_fields m body cpu_type (get bm ''type'' (JStr ''unknown''))) = (ds2, Inr r')"
       "r = add_benchmark_fields bm r'" "ds = ds1 @ ds2"
    by blast
  from sub p(8) have "set (ds1 @ ds2) \<subseteq> set out" by simp
  then have q: "set (ds1 @ ds2) \<subseteq> set out" .
  show ?thesis
    by (rule exI[of _ first], rule exI[of _ rest], rule exI[of _ meta], rule exI[of _ m],
        rule exI[of _ line], rule exI[of _ data], rule exI[of _ body], rule exI[of _ bm],
        rule exI[of _ ds1], rule exI[of _ ds2], rule exI[of _ cpu_field],
        rule exI[of _ cpu_type], rule exI[of _ r'], intro conjI)
      (rule o(1-4) p(1-7) q)+
qed

lemma add_request_id_shape:
  assumes "add_request_id f p header r = (ds, Inr r')"
  shows "r' = r \<or> (\<exists>key v. key \<in> request_id_keys \<and> r' = AList.update key v r)"
  using add_request_id_cases[OF assms] unfolding request_id_keys_def by blast

lemma keys_add_request_id:
  assumes "add_request_id f p header r = (ds, Inr r')"
  shows "fst ` set r' \<subseteq> fst ` set r \<union> request_id_keys"
    and "k \<notin> request_id_keys \<Longrightarrow> map_of r' k = map_of r k"
proof -
  from add_request_id_shape[OF assms]
  show "fst ` set r' \<subseteq> fst ` set r \<union> request_id_keys"
  proof
    assume "r' = r" then show ?thesis by blast
  next
    assume "\<exists>key v. key \<in> request_id_keys \<and> r' = AList.update key v r"
    then obtain key v where kv: "key \<in> request_id_keys" "r' = AList.update key v r" by blast
    have "fst ` set r' = {key} \<union> fst ` set r" unfolding kv(2) by (rule dom_update)
    then show ?thesis using kv(1) by simp
  qed
  assume k: "k \<notin> request_id_keys"
  from add_request_id_shape[OF assms]
  show "map_of r' k = map_of r k"
  proof
    assume "r' = r" then show ?thesis by simp
  next
    assume "\<exists>key v. key \<in> request_id_keys \<and> r' = AList.update key v r"
    then obtain key v where kv: "key \<in> request_id_keys" "r' = AList.update key v r" by blast
    with k have "k \<noteq> key" by blast
    then show ?thesis unfolding kv(2) by (simp add: update_conv')
  qed
qed



text \<open>
  Claim C7. For every record \<open>r\<close> that \<^verbatim>\<open>parse_log_file\<close> returns, with \<open>p\<close> its provider:
  for \<^verbatim>\<open>azure\<close>, \<^verbatim>\<open>gcp\<close>, \<^verbatim>\<open>aws\<close> and \<^verbatim>\<open>alibaba\<close> the record has exactly one of the four
  request-id keys, the one of the provider, holding the value of the header key
  (\<^verbatim>\<open>"unknown"\<close> when the header, or the key in it, is absent); for any other provider
  the diagnostic is among what was printed and the record, which is returned all the
  same, has none of the four keys.
\<close>

theorem request_id_by_provider:
  assumes "parse_log_file L f lines = Inr (recs, out)" "r \<in> set recs"
  shows "\<exists>p line data.
           map_of r ''provider'' = Some (Json (JStr p)) \<and>
           line \<in> set (tl lines) \<and> json_loads L line = Inr (JObj data) \<and>
           (p = ''azure'' \<longrightarrow>
              (\<exists>hdr. get data ''header'' (JObj []) = JObj hdr \<and>
                 map_of r ''azure_invocation_id'' =
                   Some (Json (get hdr ''azure-invocation-id'' (JStr ''unknown'')))) \<and>
              fst ` set r \<inter> request_id_keys = {''azure_invocation_id''}) \<and>
           (p = ''gcp'' \<longrightarrow>
              (\<exists>hdr. get data ''header'' (JObj []) = JObj hdr \<and>
                 map_of r ''gcp_execution_id'' =
                   Some (Json (get hdr ''function-execution-id'' (JStr ''unknown'')))) \<and>
              fst ` set r \<inter> request_id_keys = {''gcp_execution_id''}) \<and>
           (p = ''aws'' \<longrightarrow>
              (\<exists>hdr. get data ''header'' (JObj []) = JObj hdr \<and>
                 map_of r ''aws_request_id'' =
                   Some (Json (get hdr ''aws-request-id'' (JStr ''unknown'')))) \<and>
              fst ` set r \<inter> request_id_keys = {''aws_request_id''}) \<and>
           (p = ''alibaba'' \<longrightarrow>
              (\<exists>hdr. get data ''header'' (JObj []) = JObj hdr \<and>
                 map_of r ''alibaba_request_id'' =
                   Some (Json (get hdr ''ali-request-id'' (JStr ''unknown'')))) \<and>
              fst ` set r \<inter> request_id_keys = {''alibaba_request_id''}) \<and>
           (p \<notin> {''azure'', ''gcp'', ''aws'', ''alibaba''} \<longrightarrow>
              UnknownProvider p f \<in> set out \<and> fst ` set r \<inter> request_id_keys = {})"
proof -
  from produced_record[OF assms] obtain first rest meta m line data body bm ds1 ds2 cpu_field cpu_type r'
    where o: "lines = first # rest" "line \<in> set rest"
      "json_loads L line = Inr (JObj data)"
      "add_request_id f (provider m) (get data ''header'' (JObj []))
         (common_fields m body cpu_type (get bm ''type'' (JStr ''unknown''))) = (ds2, Inr r')"
      "r = add_benchmark_fields bm r'" "set (ds1 @ ds2) \<subseteq> set out"
    by blast
  let ?c = "common_fields m body cpu_type (get bm ''type'' (JStr ''unknown''))"
  let ?p = "provider m"
  have ck: "fst ` set ?c = set common_keys"
    using map_fst_common_fields[of m body cpu_type "get bm ''type'' (JStr ''unknown'')"]
    by (metis set_map)
  have c_no: "fst ` set ?c \<inter> request_id_keys = {}"
    using ck common_keys_disjoint by blast
  have keys_r: "fst ` set r \<inter> request_id_keys = fst ` set r' \<inter> request_id_keys"
    using request_keys_not_benchmark benchmark_keys_subset
    by (auto simp: o(5) keys_add_benchmark_fields)
  have val_r: "k \<in> request_id_keys \<Longrightarrow> map_of r k = map_of r' k" for k
    by (simp add: o(5) map_of_add_benchmark_fields request_keys_not_benchmark)
  have prov: "map_of r ''provider'' = Some (Json (JStr ?p))"
  proof -
    have "map_of r ''provider'' = map_of r' ''provider''"
      by (simp add: o(5) map_of_add_benchmark_fields all_benchmark_keys_def)
    also have "\<dots> = map_of ?c ''provider''"
      by (rule keys_add_request_id(2)[OF o(4)]) (simp add: request_id_keys_def)
    also have "\<dots> = Some (Json (JStr ?p))" by (simp add: common_fields_def)
    finally show ?thesis .
  qed
  have main: "(?p = ''azure'' \<longrightarrow>
              (\<exists>hdr. get data ''header'' (JObj []) = JObj hdr \<and>
                 map_of r ''azure_invocation_id'' =
                   Some (Json (get hdr ''azure-invocation-id'' (JStr ''unknown'')))) \<and>
              fst ` set r \<inter> request_id_keys = {''azure_invocation_id''}) \<and>
           (?p = ''gcp'' \<longrightarrow>
              (\<exists>hdr. get data ''header'' (JObj []) = JObj hdr \<and>
                 map_of r ''gcp_execution_id'' =
                   Some (Json (get hdr ''function-execution-id'' (JStr ''unknown'')))) \<and>
              fst ` set r \<inter> request_id_keys = {''gcp_execution_id''}) \<and>
           (?p = ''aws'' \<longrightarrow>
              (\<exists>hdr. get data ''header'' (JObj []) = JObj hdr \<and>
                 map_of r ''aws_request_id'' =
                   Some (Json (get hdr ''aws-request-id'' (JStr ''unknown'')))) \<and>
              fst ` set r \<inter> request_id_keys = {''aws_request_id''}) \<and>
           (?p = ''alibaba'' \<longrightarrow>
              (\<exists>hdr. get data ''header'' (JObj []) = JObj hdr \<and>
                 map_of r ''alibaba_request_id'' =
                   Some (Json (get hdr ''ali-request-id'' (JStr ''unknown'')))) \<and>
              fst ` set r \<inter> request_id_keys = {''alibaba_request_id''}) \<and>
           (?p \<notin> {''azure'', ''gcp'', ''aws'', ''alibaba''} \<longrightarrow>
              UnknownProvider ?p f \<in> set out \<and> fst ` set r \<inter> request_id_keys = {})"
    using add_request_id_cases[OF o(4)]
  proof (elim disjE conjE exE)
    fix hdr
    assume h: "?p = ''azure''" "get data ''header'' (JObj []) = JObj hdr"
      "r' = AList.update ''azure_invocation_id'' (Json (get hdr ''azure-invocation-id'' (JStr ''unknown''))) ?c"
    have "fst ` set r' \<inter> request_id_keys = {''azure_invocation_id''}"
      using c_no by (auto simp: h(3) dom_update request_id_keys_def)
    moreover have "map_of r ''azure_invocation_id'' = Some (Json (get hdr ''azure-invocation-id'' (JStr ''unknown'')))"
      by (simp add: val_r request_id_keys_def h(3) update_conv')
    ultimately show ?thesis using h(1,2) keys_r by simp
  next
    fix hdr
    assume h: "?p = ''gcp''" "get data ''header'' (JObj []) = JObj hdr"
      "r' = AList.update ''gcp_execution_id'' (Json (get hdr ''function-execution-id'' (JStr ''unknown''))) ?c"
    have "fst ` set r' \<inter> request_id_keys = {''gcp_execution_id''}"
      using c_no by (auto simp: h(3) dom_update request_id_keys_def)
    moreover have "map_of r ''gcp_execution_id'' = Some (Json (get hdr ''function-execution-id'' (JStr ''unknown'')))"
      by (simp add: val_r request_id_keys_def h(3) update_conv')
    ultimately show ?thesis using h(1,2) keys_r by simp
  next
    fix hdr
    assume h: "?p = ''aws''" "get data ''header'' (JObj []) = JObj hdr"
      "r' = AList.update ''aws_request_id'' (Json (get hdr ''aws-request-id'' (JStr ''unknown''))) ?c"
    have "fst ` set r' \<inter> request_id_keys = {''aws_request_id''}"
      using c_no by (auto simp: h(3) dom_update request_id_keys_def)
    moreover have "map_of r ''aws_request_id'' = Some (Json (get hdr ''aws-request-id'' (JStr ''unknown'')))"
      by (simp add: val_r request_id_keys_def h(3) update_conv')
    ultimately show ?thesis using h(1,2) keys_r by simp
  next
    fix hdr
    assume h: "?p = ''alibaba''" "get data ''header'' (JObj []) = JObj hdr"
      "r' = AList.update ''alibaba_request_id'' (Json (get hdr ''ali-request-id'' (JStr ''unknown''))) ?c"
    have "fst ` set r' \<inter> request_id_keys = {''alibaba_request_id''}"
      using c_no by (auto simp: h(3) dom_update request_id_keys_def)
    moreover have "map_of r ''alibaba_request_id'' = Some (Json (get hdr ''ali-request-id'' (JStr ''unknown'')))"
      by (simp add: val_r request_id_keys_def h(3) update_conv')
    ultimately show ?thesis using h(1,2) keys_r by simp
  next
    assume h: "?p \<notin> {''azure'', ''gcp'', ''aws'', ''alibaba''}" "ds2 = [UnknownProvider ?p f]" "r' = ?c"
    have "UnknownProvider ?p f \<in> set out" using o(6) h(2) by simp
    then show ?thesis using h(1,3) keys_r c_no by simp
  qed
  from o(1,2) have "line \<in> set (tl lines)" by simp
  then have l: "line \<in> set (tl lines)" .
  show ?thesis
    by (rule exI[of _ "provider m"], rule exI[of _ line], rule exI[of _ data],
        rule conjI[OF prov], rule conjI[OF l], rule conjI[OF o(3)], rule main)
qed

theorem request_id_by_provider_witness:
  "parse_log_file example_lib ''run.log'' [example_meta, example_line_gemm]
     = Inr ([example_record_gemm], [])
   \<and> example_record_gemm \<in> set [example_record_gemm]
   \<and> map_of example_record_gemm ''provider'' = Some (Json (JStr ''aws''))
   \<and> map_of example_record_gemm ''aws_request_id'' = Some (Json (JStr ''r-1''))
   \<and> fst ` set example_record_gemm \<inter> request_id_keys = {''aws_request_id''}
   \<and> parse_log_file example_lib ''run.log'' [example_meta_empty_provider, example_line_plain]
     = Inr ([example_record_plain []], [UnknownProvider [] ''run.log''])
   \<and> fst ` set (example_record_plain []) \<inter> request_id_keys = {}"
proof -
  have m: "example_record_gemm \<in> set [example_record_gemm]" by simp
  have p: "map_of example_record_gemm ''provider'' = Some (Json (JStr ''aws''))"
    by (simp add: example_record_gemm_def)
  from request_id_by_provider[OF ex_parse_gemm m] p
  have k: "fst ` set example_record_gemm \<inter> request_id_keys = {''aws_request_id''}"
    by auto
  have v: "map_of example_record_gemm ''aws_request_id'' = Some (Json (JStr ''r-1''))"
    by (simp add: example_record_gemm_def)
  have m': "example_record_plain [] \<in> set [example_record_plain []]" by simp
  have p': "map_of (example_record_plain []) ''provider'' = Some (Json (JStr []))"
    by (simp add: example_record_plain_def)
  from request_id_by_provider[OF ex_parse_unknown_provider m'] p'
  have k': "fst ` set (example_record_plain []) \<inter> request_id_keys = {}"
    by auto
  from ex_parse_gemm m p v k ex_parse_unknown_provider k' show ?thesis by (intro conjI)
qed

text \<open>
  Claim C9, as amended. For every record that \<^verbatim>\<open>parse_log_file\<close> returns, the provider
  is the lower-cased \<^verbatim>\<open>provider\<close> of the metadata line, where \<^verbatim>\<open>"unknown"\<close> stands in for
  an absent key only; the \<^verbatim>\<open>cpu_type\<close> is what the normalizer returns for the resolved
  CPU field, and that field is \<^verbatim>\<open>"unknown"\<close> when \<^verbatim>\<open>body.cpuType\<close> is absent and the
  provider is not \<^verbatim>\<open>gcp\<close>.
\<close>

theorem provider_and_cpu_type:
  assumes "parse_log_file L f lines = Inr (recs, out)" "r \<in> set recs"
  shows "\<exists>kvs p line data body ds cpu_field cpu_type.
           json_loads L (hd lines) = Inr (JObj kvs) \<and>
           get kvs ''provider'' (JStr ''unknown'') = JStr p \<and>
           map_of r ''provider'' = Some (Json (JStr (str_lower L p))) \<and>
           line \<in> set (tl lines) \<and> json_loads L line = Inr (JObj data) \<and>
           map_of data ''body'' = Some (JObj body) \<and>
           resolve_cpu L (str_lower L p) body = (ds, Inr cpu_field) \<and>
           shorten_cpu_name L cpu_field = Inr cpu_type \<and>
           map_of r ''cpu_type'' = Some cpu_type \<and>
           (str_lower L p \<noteq> ''gcp'' \<and> map_of body ''cpuType'' = None \<longrightarrow> cpu_field = JStr ''unknown'')"
proof -
  from produced_record[OF assms] obtain first rest meta m line data body bm ds1 ds2 cpu_field cpu_type r'
    where o: "lines = first # rest" "json_loads L first = Inr meta" "extract_meta L meta = Inr m"
      "line \<in> set rest"
      "json_loads L line = Inr (JObj data)" "map_of data ''body'' = Some (JObj body)"
      "resolve_cpu L (provider m) body = (ds1, Inr cpu_field)"
      "shorten_cpu_name L cpu_field = Inr cpu_type"
      "add_request_id f (provider m) (get data ''header'' (JObj []))
         (common_fields m body cpu_type (get bm ''type'' (JStr ''unknown''))) = (ds2, Inr r')"
      "r = add_benchmark_fields bm r'"
    by blast
  let ?c = "common_fields m body cpu_type (get bm ''type'' (JStr ''unknown''))"
  from o(3) obtain kvs p where mp: "meta = JObj kvs" "get kvs ''provider'' (JStr ''unknown'') = JStr p"
    "provider m = str_lower L p"
    by (auto simp: extract_meta_def meta_provider_def split: sum.splits json.splits)
  have from_c: "map_of r k = map_of ?c k" if "k \<in> set common_keys" for k
  proof -
    from that have d: "k \<notin> request_id_keys" "k \<notin> set all_benchmark_keys"
      using common_keys_disjoint by blast+
    have "map_of r k = map_of r' k" by (simp add: o(10) map_of_add_benchmark_fields d(2))
    also have "\<dots> = map_of ?c k" by (rule keys_add_request_id(2)[OF o(9) d(1)])
    finally show ?thesis .
  qed
  have prov: "map_of r ''provider'' = Some (Json (JStr (str_lower L p)))"
    using from_c[of "''provider''"] by (simp add: common_keys_def common_fields_def mp(3))
  have cpu: "map_of r ''cpu_type'' = Some cpu_type"
    using from_c[of "''cpu_type''"] by (simp add: common_keys_def common_fields_def)
  have unk: "str_lower L p \<noteq> ''gcp'' \<and> map_of body ''cpuType'' = None \<longrightarrow> cpu_field = JStr ''unknown''"
    using o(7) by (auto simp: mp(3) resolve_cpu_def get_def Let_def)
  have h: "json_loads L (hd lines) = Inr (JObj kvs)" using o(1,2) mp(1) by simp
  have l: "line \<in> set (tl lines)" using o(1,4) by simp
  have rc: "resolve_cpu L (str_lower L p) body = (ds1, Inr cpu_field)" using o(7) mp(3) by simp
  show ?thesis
    by (rule exI[of _ kvs], rule exI[of _ p], rule exI[of _ line], rule exI[of _ data],
        rule exI[of _ body], rule exI[of _ ds1], rule exI[of _ cpu_field], rule exI[of _ cpu_type],
        intro conjI)
      (rule h mp(2) prov l o(5,6,8) rc cpu unk)+
qed

theorem provider_and_cpu_type_witness:
  "parse_log_file example_lib ''run.log'' [example_meta, example_line_gemm]
     = Inr ([example_record_gemm], [])
   \<and> example_record_gemm \<in> set [example_record_gemm]
   \<and> (\<exists>kvs p line data body ds cpu_field cpu_type.
           json_loads example_lib (hd [example_meta, example_line_gemm]) = Inr (JObj kvs) \<and>
           get kvs ''provider'' (JStr ''unknown'') = JStr p \<and>
           map_of example_record_gemm ''provider'' = Some (Json (JStr (str_lower example_lib p))) \<and>
           line \<in> set (tl [example_meta, example_line_gemm]) \<and>
           json_loads example_lib line = Inr (JObj data) \<and>
           map_of data ''body'' = Some (JObj body) \<and>
           resolve_cpu example_lib (str_lower example_lib p) body = (ds, Inr cpu_field) \<and>
           shorten_cpu_name example_lib cpu_field = Inr cpu_type \<and>
           map_of example_record_gemm ''cpu_type'' = Some cpu_type \<and>
           (str_lower example_lib p \<noteq> ''gcp'' \<and> map_of body ''cpuType'' = None \<longrightarrow>
              cpu_field = JStr ''unknown''))
   \<and> map_of example_record_gemm ''provider'' = Some (Json (JStr ''aws''))
   \<and> map_of example_record_gemm ''cpu_type'' = Some (Json (JStr ''AMD EPYC 2.65GHz''))"
proof -
  have m: "example_record_gemm \<in> set [example_record_gemm]" by simp
  note t = provider_and_cpu_type[OF ex_parse_gemm m]
  have "map_of example_record_gemm ''provider'' = Some (Json (JStr ''aws''))
   \<and> map_of example_record_gemm ''cpu_type'' = Some (Json (JStr ''AMD EPYC 2.65GHz''))"
    by (simp add: example_record_gemm_def)
  with ex_parse_gemm m t show ?thesis by (intro conjI) simp_all
qed

text \<open>
  Claim C9 as stated fails: a metadata line whose \<^verbatim>\<open>provider\<close> is the empty string
  gives records whose provider is the empty string, since the fallback of line 32
  applies to an absent key only.
\<close>

theorem empty_provider_counterexample:
  "parse_log_file example_lib ''run.log'' [example_meta_empty_provider, example_line_plain]
     = Inr ([example_record_plain []], [UnknownProvider [] ''run.log''])
   \<and> map_of (example_record_plain []) ''provider'' = Some (Json (JStr []))"
  by (simp add: example_defs parse_defs)

section \<open>Properties of the directory aggregator\<close>

lemma collect_append:
  "collect (xs @ ys) =
     (case collect xs of Inl e \<Rightarrow> Inl e | Inr st \<Rightarrow> extend st (collect ys))"
  by (induction xs) (auto simp: extend_def split: sum.splits prod.splits)

lemma extend_extend:
  "extend st (case r of Inl e \<Rightarrow> Inl e | Inr st' \<Rightarrow> extend st' r') =
     (case extend st r of Inl e \<Rightarrow> Inl e | Inr st'' \<Rightarrow> extend st'' r')"
  by (auto simp: extend_def split: sum.splits prod.splits)

lemma parse_files_eq:
  "parse_files L d files st =
     extend st (collect (map (\<lambda>(p, c). parse_log_file L p c)
        (map (\<lambda>(name, content). (path_join d name, content))
           (filter (\<lambda>(name, content). endswith name ''.log'') files))))"
proof (induction files arbitrary: st)
  case Nil
  then show ?case by (simp add: extend_def)
next
  case (Cons fc files)
  obtain name content where fc: "fc = (name, content)" by (cases fc)
  obtain recs out where st: "st = (recs, out)" by (cases st)
  show ?case
    by (auto simp: fc st Cons.IH extend_def split: sum.splits prod.splits)
qed

lemma walk_loop_eq:
  "walk_loop L entries st =
     extend st (collect (map (\<lambda>(p, c). parse_log_file L p c)
        (concat (map (\<lambda>(d, ds, fs). selected d fs) entries))))"
proof (induction entries arbitrary: st)
  case Nil
  then show ?case by (simp add: extend_def)
next
  case (Cons en entries)
  obtain d ds fs where en: "en = (d, ds, fs)" by (cases en)
  show ?case
  proof (cases "''logs'' \<in> set (split_sep CHR ''/'' d)")
    case True
    then show ?thesis by (simp add: en Cons.IH selected_def)
  next
    case False
    then show ?thesis
      by (simp add: en Cons.IH selected_def parse_files_eq collect_append extend_extend
               split: sum.splits)
  qed
qed

lemma walk_selected:
  "concat (map (\<lambda>(d, ds, fs). selected d fs) (os_walk dir tree)) = log_files dir tree"
proof (induction dir tree rule: os_walk.induct)
  case (1 dir files dirs)
  have "concat (map (\<lambda>(d, ds, fs). selected d fs)
          (concat (map (\<lambda>d. os_walk (path_join dir (fst d)) (snd d)) dirs)))
        = concat (map (\<lambda>d. log_files (path_join dir (fst d)) (snd d)) dirs)"
    using 1 by (induction dirs) auto
  then show ?case by simp
qed

lemma load_eq:
  "load_records_from_directory L dir tree =
     (case collect (map (\<lambda>(p, c). parse_log_file L p c) (log_files dir tree)) of
        Inl e \<Rightarrow> Inl e
      | Inr (all_records, out) \<Rightarrow> Inr (DataFrame all_records, out))"
  by (simp add: load_records_from_directory_def walk_loop_eq walk_selected extend_def
           split: sum.splits)

lemma collect_Inr:
  "(\<forall>x \<in> set xs. \<exists>res. x = Inr res) \<Longrightarrow>
     collect xs = Inr (concat (map (\<lambda>x. fst (projr x)) xs), concat (map (\<lambda>x. snd (projr x)) xs))"
  by (induction xs) (auto split: sum.splits prod.splits)

lemma collect_Inl:
  "Inl e \<in> set xs \<Longrightarrow> \<exists>e'. collect xs = Inl e'"
  by (induction xs) (auto split: sum.splits prod.splits)

lemma cell_of_DataFrame:
  assumes "i < length recs" "c \<in> set (columns (DataFrame recs))"
  shows "cell_of (rows (DataFrame recs) ! i) c =
           (case map_of (recs ! i) c of None \<Rightarrow> NA | Some v \<Rightarrow> to_cell v)"
  using assms
  by (simp add: DataFrame_def Let_def cell_of_def map_of_map_restrict)

lemma length_rows_DataFrame: "length (rows (DataFrame recs)) = length recs"
  by (simp add: DataFrame_def Let_def)

lemma DataFrame_Nil: "DataFrame [] = \<lparr>columns = [], rows = []\<rparr>"
  by (simp add: DataFrame_def first_occurrences_def)

lemma selected_iff:
  "(p, c) \<in> set (selected d fs) \<longleftrightarrow>
     (\<exists>name. (name, c) \<in> set fs \<and> p = path_join d name \<and> endswith name ''.log'' \<and>
        ''logs'' \<notin> set (split_sep CHR ''/'' d))"
proof (cases "''logs'' \<in> set (split_sep CHR ''/'' d)")
  case True
  then show ?thesis by (simp add: selected_def)
next
  case False
  have "(p, c) \<in> set (selected d fs) \<longleftrightarrow>
          (p, c) \<in> (\<lambda>(name, content). (path_join d name, content)) `
             {x \<in> set fs. case x of (name, content) \<Rightarrow> endswith name ''.log''}"
    using False by (simp add: selected_def)
  also have "\<dots> \<longleftrightarrow> (\<exists>name. (name, c) \<in> set fs \<and> p = path_join d name \<and> endswith name ''.log'')"
    by (force simp: image_iff)
  finally show ?thesis using False by simp
qed

lemma log_files_iff:
  "(p, c) \<in> set (log_files dir tree) \<longleftrightarrow>
     (\<exists>d ds fs name. (d, ds, fs) \<in> set (os_walk dir tree) \<and> (name, c) \<in> set fs \<and>
        p = path_join d name \<and> endswith name ''.log'' \<and>
        ''logs'' \<notin> set (split_sep CHR ''/'' d))"
proof -
  have "(p, c) \<in> set (log_files dir tree) \<longleftrightarrow>
          (\<exists>en \<in> set (os_walk dir tree). (p, c) \<in> set (case en of (d, ds, fs) \<Rightarrow> selected d fs))"
    unfolding walk_selected[symmetric] by simp
  also have "\<dots> \<longleftrightarrow> (\<exists>d ds fs. (d, ds, fs) \<in> set (os_walk dir tree) \<and> (p, c) \<in> set (selected d fs))"
    by auto
  also have "\<dots> \<longleftrightarrow> (\<exists>d ds fs name. (d, ds, fs) \<in> set (os_walk dir tree) \<and> (name, c) \<in> set fs \<and>
        p = path_join d name \<and> endswith name ''.log'' \<and>
        ''logs'' \<notin> set (split_sep CHR ''/'' d))"
    unfolding selected_iff by blast
  finally show ?thesis .
qed

lemma collect_first_Inl:
  "(\<forall>x \<in> set xs. \<exists>res. x = Inr res) \<Longrightarrow> collect (xs @ Inl e # ys) = Inl e"
  by (induction xs) (auto split: sum.splits prod.splits)

lemma set_first_occurrences: "set (first_occurrences xs) = set xs"
  by (simp add: first_occurrences_def)

lemma distinct_first_occurrences: "distinct (first_occurrences xs)"
  by (simp add: first_occurrences_def)

lemma columns_DataFrame:
  "set (columns (DataFrame recs)) = (\<Union>r \<in> set recs. fst ` set r)"
  "distinct (columns (DataFrame recs))"
  by (simp_all add: DataFrame_def Let_def set_first_occurrences distinct_first_occurrences)

lemma row_columns_DataFrame:
  "i < length recs \<Longrightarrow> map fst (rows (DataFrame recs) ! i) = columns (DataFrame recs)"
  by (simp add: DataFrame_def Let_def comp_def)

lemma load_first_raise:
  assumes "log_files log_dir tree = before @ (p, c) # after"
    and "\<forall>(p', c') \<in> set before. \<exists>res. parse_log_file L p' c' = Inr res"
    and "parse_log_file L p c = Inl e"
  shows "load_records_from_directory L log_dir tree = Inl e"
proof -
  let ?f = "\<lambda>(p, c). parse_log_file L p c"
  have "\<forall>x \<in> set (map ?f before). \<exists>res. x = Inr res" using assms(2) by auto
  from collect_first_Inl[OF this, of e "map ?f after"]
  have "collect (map ?f (log_files log_dir tree)) = Inl e"
    by (simp add: assms(1,3))
  then show ?thesis by (simp add: load_eq)
qed

text \<open>
  Claim C8, as amended. The files \<^verbatim>\<open>load_records_from_directory\<close> parses (\<open>log_files\<close>,
  in the order of the walk) are exactly those that \<^verbatim>\<open>os.walk\<close> lists with a name ending
  in \<^verbatim>\<open>.log\<close>, in a directory whose path has no component \<^verbatim>\<open>logs\<close>. When
  \<^verbatim>\<open>parse_log_file\<close> returns for each of them, the table is \<^verbatim>\<open>DataFrame\<close> of the
  concatenation of what it returned; a tree without such a file gives the empty
  table. When \<^verbatim>\<open>parse_log_file\<close> raises on one of them and has returned for those
  before it, its exception leaves \<^verbatim>\<open>load_records_from_directory\<close>: no table is
  returned and the files after it are not looked at. The table of a list of records
  has one row for each record, in order; its columns are the keys that occur in the
  records, each once; every row has all of them, with the cell of the record's value
  or a missing cell.
\<close>

theorem load_records_selected_files:
  "(\<forall>p c. (p, c) \<in> set (log_files log_dir tree) \<longleftrightarrow>
            (\<exists>d ds fs name. (d, ds, fs) \<in> set (os_walk log_dir tree) \<and> (name, c) \<in> set fs \<and>
               p = path_join d name \<and> (\<exists>stem. name = stem @ ''.log'') \<and>
               ''logs'' \<notin> set (split_sep CHR ''/'' d)))
   \<and> ((\<forall>(p, c) \<in> set (log_files log_dir tree). \<exists>res. parse_log_file L p c = Inr res) \<longrightarrow>
        (\<exists>out. load_records_from_directory L log_dir tree =
             Inr (DataFrame (concat (map (\<lambda>(p, c). fst (projr (parse_log_file L p c)))
                                       (log_files log_dir tree))), out)))
   \<and> (log_files log_dir tree = [] \<longrightarrow>
        load_records_from_directory L log_dir tree = Inr (\<lparr>columns = [], rows = []\<rparr>, []))
   \<and> (\<forall>before p c after e.
        log_files log_dir tree = before @ (p, c) # after \<and>
        (\<forall>(p', c') \<in> set before. \<exists>res. parse_log_file L p' c' = Inr res) \<and>
        parse_log_file L p c = Inl e \<longrightarrow>
        load_records_from_directory L log_dir tree = Inl e)
   \<and> (\<forall>recs. length (rows (DataFrame recs)) = length recs \<and>
        set (columns (DataFrame recs)) = (\<Union>r \<in> set recs. fst ` set r) \<and>
        distinct (columns (DataFrame recs)) \<and>
        (\<forall>i < length recs.
           map fst (rows (DataFrame recs) ! i) = columns (DataFrame recs) \<and>
           (\<forall>c \<in> set (columns (DataFrame recs)).
              cell_of (rows (DataFrame recs) ! i) c =
                (case map_of (recs ! i) c of None \<Rightarrow> NA | Some v \<Rightarrow> to_cell v))))"
proof (intro conjI)
  show "\<forall>p c. (p, c) \<in> set (log_files log_dir tree) \<longleftrightarrow>
            (\<exists>d ds fs name. (d, ds, fs) \<in> set (os_walk log_dir tree) \<and> (name, c) \<in> set fs \<and>
               p = path_join d name \<and> (\<exists>stem. name = stem @ ''.log'') \<and>
               ''logs'' \<notin> set (split_sep CHR ''/'' d))"
    by (simp only: log_files_iff endswith_iff) simp
next
  show "(\<forall>(p, c) \<in> set (log_files log_dir tree). \<exists>res. parse_log_file L p c = Inr res) \<longrightarrow>
        (\<exists>out. load_records_from_directory L log_dir tree =
             Inr (DataFrame (concat (map (\<lambda>(p, c). fst (projr (parse_log_file L p c)))
                                       (log_files log_dir tree))), out))"
  proof
    assume a: "\<forall>(p, c) \<in> set (log_files log_dir tree). \<exists>res. parse_log_file L p c = Inr res"
    let ?xs = "map (\<lambda>(p, c). parse_log_file L p c) (log_files log_dir tree)"
    have "\<forall>x \<in> set ?xs. \<exists>res. x = Inr res" using a by auto
    from collect_Inr[OF this]
    have c: "collect ?xs =
        Inr (concat (map (\<lambda>x. fst (projr x)) ?xs), concat (map (\<lambda>x. snd (projr x)) ?xs))" .
    have "concat (map (\<lambda>x. fst (projr x)) ?xs) =
          concat (map (\<lambda>(p, c). fst (projr (parse_log_file L p c))) (log_files log_dir tree))"
      by (simp add: comp_def case_prod_unfold)
    with c show "\<exists>out. load_records_from_directory L log_dir tree =
             Inr (DataFrame (concat (map (\<lambda>(p, c). fst (projr (parse_log_file L p c)))
                                       (log_files log_dir tree))), out)"
      by (simp add: load_eq)
  qed
next
  show "log_files log_dir tree = [] \<longrightarrow>
             load_records_from_directory L log_dir tree = Inr (\<lparr>columns = [], rows = []\<rparr>, [])"
    by (simp add: load_eq DataFrame_Nil)
next
  show "\<forall>before p c after e.
        log_files log_dir tree = before @ (p, c) # after \<and>
        (\<forall>(p', c') \<in> set before. \<exists>res. parse_log_file L p' c' = Inr res) \<and>
        parse_log_file L p c = Inl e \<longrightarrow>
        load_records_from_directory L log_dir tree = Inl e"
    using load_first_raise by blast
next
  show "\<forall>recs. length (rows (DataFrame recs)) = length recs \<and>
        set (columns (DataFrame recs)) = (\<Union>r \<in> set recs. fst ` set r) \<and>
        distinct (columns (DataFrame recs)) \<and>
        (\<forall>i < length recs.
           map fst (rows (DataFrame recs) ! i) = columns (DataFrame recs) \<and>
           (\<forall>c \<in> set (columns (DataFrame recs)).
              cell_of (rows (DataFrame recs) ! i) c =
                (case map_of (recs ! i) c of None \<Rightarrow> NA | Some v \<Rightarrow> to_cell v)))"
  proof (intro allI conjI impI ballI)
    fix recs :: "pyrecord list"
    show "length (rows (DataFrame recs)) = length recs" by (rule length_rows_DataFrame)
    show "set (columns (DataFrame recs)) = (\<Union>r \<in> set recs. fst ` set r)"
      by (rule columns_DataFrame(1))
    show "distinct (columns (DataFrame recs))" by (rule columns_DataFrame(2))
    fix i assume i: "i < length recs"
    show "map fst (rows (DataFrame recs) ! i) = columns (DataFrame recs)"
      by (rule row_columns_DataFrame[OF i])
    fix c assume "c \<in> set (columns (DataFrame recs))"
    then show "cell_of (rows (DataFrame recs) ! i) c =
                (case map_of (recs ! i) c of None \<Rightarrow> NA | Some v \<Rightarrow> to_cell v)"
      by (rule cell_of_DataFrame[OF i])
  qed
qed

lemma ex_log_files:
  "log_files ''root'' example_tree = [(''root/run1/y.log'', [example_meta, example_line_gemm])]"
  by (simp add: example_tree_def selected_def path_join_def endswith_def)

lemma ex_parse_y:
  "parse_log_file example_lib ''root/run1/y.log'' [example_meta, example_line_gemm]
     = Inr ([example_record_gemm], [])"
  by (simp add: example_defs parse_defs)

lemma ex_log_files_raising:
  "log_files ''root'' example_tree_raising =
     [(''root/run1/a.log'', [example_meta_no_timestamp]),
      (''root/run1/y.log'', [example_meta, example_line_gemm])]"
  by (simp add: example_tree_raising_def selected_def path_join_def endswith_def)

lemma ex_parse_a:
  "parse_log_file example_lib ''root/run1/a.log'' [example_meta_no_timestamp] = Inl KeyError"
  by (simp add: example_defs parse_defs)

theorem load_records_selected_files_witness:
  "log_files ''root'' example_tree = [(''root/run1/y.log'', [example_meta, example_line_gemm])]
   \<and> parse_log_file example_lib ''root/run1/y.log'' [example_meta, example_line_gemm]
        = Inr ([example_record_gemm], [])
   \<and> load_records_from_directory example_lib ''root'' example_tree
        = Inr (DataFrame [example_record_gemm], [])
   \<and> length (rows (DataFrame [example_record_gemm])) = 1
   \<and> set (columns (DataFrame [example_record_gemm])) = fst ` set example_record_gemm
   \<and> load_records_from_directory example_lib ''root'' (Dir [(''notes.txt'', [''hello''])] [])
        = Inr (\<lparr>columns = [], rows = []\<rparr>, [])
   \<and> parse_log_file example_lib ''root/run1/a.log'' [example_meta_no_timestamp] = Inl KeyError
   \<and> load_records_from_directory example_lib ''root'' example_tree_raising = Inl KeyError"
proof -
  note returns = load_records_selected_files[of "''root''" example_tree example_lib,
      THEN conjunct2, THEN conjunct1, THEN mp]
  note empty = load_records_selected_files[of "''root''" "Dir [(''notes.txt'', [''hello''])] []"
      example_lib, THEN conjunct2, THEN conjunct2, THEN conjunct1, rule_format]
  note raises = load_records_selected_files[of "''root''" example_tree_raising example_lib,
      THEN conjunct2, THEN conjunct2, THEN conjunct2, THEN conjunct1,
      THEN spec, THEN spec, THEN spec, THEN spec, THEN spec, THEN mp]
  note table = load_records_selected_files[of "''root''" example_tree example_lib,
      THEN conjunct2, THEN conjunct2, THEN conjunct2, THEN conjunct2, THEN spec,
      of "[example_record_gemm]"]
  have h: "\<forall>(p, c) \<in> set (log_files ''root'' example_tree).
             \<exists>res. parse_log_file example_lib p c = Inr res"
    by (simp add: ex_log_files ex_parse_y)
  have "\<exists>out. load_records_from_directory example_lib ''root'' example_tree
        = Inr (DataFrame [example_record_gemm], out)"
    using returns[OF h] by (simp add: ex_log_files ex_parse_y)
  moreover have "load_records_from_directory example_lib ''root'' example_tree
        = Inr (DataFrame [example_record_gemm], [])"
    by (simp add: load_eq ex_log_files ex_parse_y)
  moreover have "log_files ''root'' (Dir [(''notes.txt'', [''hello''])] []) = []"
    by (simp add: selected_def endswith_def)
  then have "load_records_from_directory example_lib ''root'' (Dir [(''notes.txt'', [''hello''])] [])
        = Inr (\<lparr>columns = [], rows = []\<rparr>, [])"
    by (rule empty)
  moreover have "load_records_from_directory example_lib ''root'' example_tree_raising = Inl KeyError"
    by (rule raises[of "[]" "''root/run1/a.log''" "[example_meta_no_timestamp]"
          "[(''root/run1/y.log'', [example_meta, example_line_gemm])]" KeyError])
       (simp add: ex_log_files_raising ex_parse_a)
  moreover have "length (rows (DataFrame [example_record_gemm])) = 1"
    using table by simp
  moreover have "set (columns (DataFrame [example_record_gemm])) = fst ` set example_record_gemm"
    using table by simp
  ultimately show ?thesis
    using ex_log_files ex_parse_y ex_parse_a by simp
qed

text \<open>
  Claim C8 as stated fails: a tree is not always answered with a table. In
  \<open>example_tree_raising\<close> the file \<^verbatim>\<open>root/run1/a.log\<close> has a metadata line without
  \<^verbatim>\<open>timestamp\<close>; \<^verbatim>\<open>parse_log_file\<close> raises on it, lines 227 and 228 catch nothing, and
  \<^verbatim>\<open>load_records_from_directory\<close> raises without reaching \<^verbatim>\<open>root/run1/y.log\<close>.
\<close>

theorem unparsed_file_counterexample:
  "log_files ''root'' example_tree_raising =
     [(''root/run1/a.log'', [example_meta_no_timestamp]),
      (''root/run1/y.log'', [example_meta, example_line_gemm])]
   \<and> load_records_from_directory example_lib ''root'' example_tree_raising = Inl KeyError"
  by (simp add: load_eq ex_log_files_raising ex_parse_a)

lemma collect_Inl_iff:
  "(\<exists>e. collect xs = Inl e) \<longleftrightarrow> (\<exists>e. Inl e \<in> set xs)"
  by (induction xs) (auto split: sum.splits prod.splits)

lemma load_raises_iff:
  "(\<exists>e. load_records_from_directory L dir tree = Inl e) \<longleftrightarrow>
     (\<exists>p c e. (p, c) \<in> set (log_files dir tree) \<and> parse_log_file L p c = Inl e)"
proof -
  have "(\<exists>e. load_records_from_directory L dir tree = Inl e) \<longleftrightarrow>
          (\<exists>e. collect (map (\<lambda>(p, c). parse_log_file L p c) (log_files dir tree)) = Inl e)"
    by (auto simp: load_eq split: sum.splits prod.splits)
  also have "\<dots> \<longleftrightarrow> (\<exists>e. Inl e \<in> set (map (\<lambda>(p, c). parse_log_file L p c) (log_files dir tree)))"
    by (rule collect_Inl_iff)
  also have "\<dots> \<longleftrightarrow> (\<exists>p c e. (p, c) \<in> set (log_files dir tree) \<and> parse_log_file L p c = Inl e)"
  proof
    assume "\<exists>e. Inl e \<in> set (map (\<lambda>(p, c). parse_log_file L p c) (log_files dir tree))"
    then obtain e x where x: "x \<in> set (log_files dir tree)"
        "Inl e = (case x of (p, c) \<Rightarrow> parse_log_file L p c)"
      by auto
    obtain p c where pc: "x = (p, c)" by (rule prod.exhaust)
    from x have "(p, c) \<in> set (log_files dir tree)" "parse_log_file L p c = Inl e"
      unfolding pc by simp_all
    then show "\<exists>p c e. (p, c) \<in> set (log_files dir tree) \<and> parse_log_file L p c = Inl e"
      by blast
  next
    assume "\<exists>p c e. (p, c) \<in> set (log_files dir tree) \<and> parse_log_file L p c = Inl e"
    then obtain p c e where "(p, c) \<in> set (log_files dir tree)" "parse_log_file L p c = Inl e"
      by blast
    then have "Inl e = (\<lambda>(p, c). parse_log_file L p c) (p, c)" "(p, c) \<in> set (log_files dir tree)"
      by simp_all
    then have "Inl e \<in> (\<lambda>(p, c). parse_log_file L p c) ` set (log_files dir tree)"
      by (rule image_eqI)
    then have "Inl e \<in> set (map (\<lambda>(p, c). parse_log_file L p c) (log_files dir tree))"
      by simp
    then show "\<exists>e. Inl e \<in> set (map (\<lambda>(p, c). parse_log_file L p c) (log_files dir tree))"
      by (rule exI)
  qed
  finally show ?thesis .
qed

text \<open>
  Claim C1, as amended. \<^verbatim>\<open>parse_log_file\<close> returns the empty list for an empty file; for
  a metadata line that is not valid JSON it returns the empty list and only reports
  the failure; once the metadata fields of lines 31 to 38 have been read, it returns
  a list whatever the invocation lines hold. A metadata line that is a JSON object
  without \<^verbatim>\<open>timestamp\<close>, or with one that \<^verbatim>\<open>fromisoformat\<close> refuses, makes it raise
  (\<^verbatim>\<open>KeyError\<close>, \<^verbatim>\<open>ValueError\<close>), and \<^verbatim>\<open>load_records_from_directory\<close> raises exactly
  when \<^verbatim>\<open>parse_log_file\<close> raises on one of the files it parses.
\<close>

theorem exceptions_that_escape:
  "parse_log_file L f [] = Inr ([], [])
   \<and> (json_loads L first = Inl JSONDecodeError \<longrightarrow>
        parse_log_file L f (first # rest) = Inr ([], [InvalidMetadataLine f]))
   \<and> (json_loads L first = Inr meta \<and> extract_meta L meta = Inr m \<longrightarrow>
        (\<exists>recs out. parse_log_file L f (first # rest) = Inr (recs, out)))
   \<and> (json_loads L first = Inr (JObj kvs) \<and> map_of kvs ''timestamp'' = None \<longrightarrow>
        parse_log_file L f (first # rest) = Inl KeyError)
   \<and> (json_loads L first = Inr (JObj kvs) \<and> map_of kvs ''timestamp'' = Some (JStr s) \<and>
        fromisoformat L (replace_Z s) = None \<longrightarrow>
        parse_log_file L f (first # rest) = Inl ValueError)
   \<and> ((\<exists>e. load_records_from_directory L log_dir tree = Inl e) \<longleftrightarrow>
        (\<exists>p c e. (p, c) \<in> set (log_files log_dir tree) \<and> parse_log_file L p c = Inl e))"
proof (intro conjI impI)
  show "parse_log_file L f [] = Inr ([], [])" by (simp add: parse_log_file_def)
next
  assume "json_loads L first = Inl JSONDecodeError"
  then show "parse_log_file L f (first # rest) = Inr ([], [InvalidMetadataLine f])"
    by (simp add: parse_log_file_def)
next
  assume "json_loads L first = Inr meta \<and> extract_meta L meta = Inr m"
  then show "\<exists>recs out. parse_log_file L f (first # rest) = Inr (recs, out)"
    by (simp add: parse_log_file_valid_meta)
next
  assume "json_loads L first = Inr (JObj kvs) \<and> map_of kvs ''timestamp'' = None"
  then show "parse_log_file L f (first # rest) = Inl KeyError"
    by (simp add: parse_log_file_def extract_meta_def meta_timestamp_def)
next
  assume "json_loads L first = Inr (JObj kvs) \<and> map_of kvs ''timestamp'' = Some (JStr s) \<and>
        fromisoformat L (replace_Z s) = None"
  then show "parse_log_file L f (first # rest) = Inl ValueError"
    by (simp add: parse_log_file_def extract_meta_def meta_timestamp_def)
next
  show "(\<exists>e. load_records_from_directory L log_dir tree = Inl e) \<longleftrightarrow>
        (\<exists>p c e. (p, c) \<in> set (log_files log_dir tree) \<and> parse_log_file L p c = Inl e)"
    by (rule load_raises_iff)
qed

lemma ex_no_timestamp:
  "json_loads example_lib example_meta_no_timestamp
     = Inr (JObj [(''provider'', JStr ''aws''), (''memorySize'', JInt 512)])"
  by (simp add: example_defs)

theorem exceptions_that_escape_witness:
  "json_loads example_lib example_line_stray = Inl JSONDecodeError
   \<and> parse_log_file example_lib ''run.log'' [example_line_stray, example_line_plain]
        = Inr ([], [InvalidMetadataLine ''run.log''])
   \<and> json_loads example_lib example_meta = Inr example_meta_json
   \<and> extract_meta example_lib example_meta_json = Inr example_meta_info
   \<and> (\<exists>recs out. parse_log_file example_lib ''run.log''
          [example_meta, example_line_stray, example_line_plain] = Inr (recs, out))
   \<and> json_loads example_lib example_meta_no_timestamp
        = Inr (JObj [(''provider'', JStr ''aws''), (''memorySize'', JInt 512)])
   \<and> map_of [(''provider'', JStr ''aws''), (''memorySize'', JInt 512)] ''timestamp'' = None
   \<and> parse_log_file example_lib ''run.log'' [example_meta_no_timestamp, example_line_plain]
        = Inl KeyError"
proof -
  note t = exceptions_that_escape[of example_lib "''run.log''"]
  have n: "map_of [(''provider'', JStr ''aws''), (''memorySize'', JInt 512)] ''timestamp'' = None"
    by simp
  from t[of example_line_stray "[example_line_plain]"] ex_stray
  have a: "parse_log_file example_lib ''run.log'' [example_line_stray, example_line_plain]
        = Inr ([], [InvalidMetadataLine ''run.log''])"
    by blast
  from t[of example_meta "[example_line_stray, example_line_plain]" example_meta_json example_meta_info]
    ex_meta ex_meta_info
  have b: "\<exists>recs out. parse_log_file example_lib ''run.log''
          [example_meta, example_line_stray, example_line_plain] = Inr (recs, out)"
    by blast
  from t[of example_meta_no_timestamp "[example_line_plain]" _ _
           "[(''provider'', JStr ''aws''), (''memorySize'', JInt 512)]"] ex_no_timestamp n
  have c: "parse_log_file example_lib ''run.log'' [example_meta_no_timestamp, example_line_plain]
        = Inl KeyError"
    by blast
  from ex_stray a ex_meta ex_meta_info b ex_no_timestamp n c show ?thesis by (intro conjI)
qed

text \<open>
  Claim C1 as stated fails: lines 31 to 38 stand outside every \<^verbatim>\<open>try\<close>, so a metadata
  line that is valid JSON but has no \<^verbatim>\<open>timestamp\<close> raises \<^verbatim>\<open>KeyError\<close> out of
  \<^verbatim>\<open>parse_log_file\<close> and out of \<^verbatim>\<open>load_records_from_directory\<close>.
\<close>

theorem missing_timestamp_counterexample:
  "parse_log_file example_lib ''root/run1/y.log'' [example_meta_no_timestamp, example_line_plain]
     = Inl KeyError
   \<and> load_records_from_directory example_lib ''root'' example_tree_no_timestamp = Inl KeyError"
  by (simp add: example_defs parse_defs load_records_from_directory_def
        example_tree_no_timestamp_def path_join_def endswith_def)

section \<open>Properties of the outlier trimmer\<close>




lemma select_rows_map:
  "select_rows df (map P (rows df)) = \<lparr>columns = columns df, rows = filter P (rows df)\<rparr>"
proof -
  have "map fst (filter snd (zip xs (map P xs))) = filter P xs" for xs :: "row list"
    by (induction xs) auto
  then show ?thesis by (simp add: select_rows_def)
qed

lemma compare_all_Inr:
  "compare_all f xs = Inr bs \<Longrightarrow> bs = map (\<lambda>x. f x = Inr True) xs"
  by (induction xs arbitrary: bs) (auto split: sum.splits)


lemma compare_all_Inl:
  "compare_all f xs = Inl e \<Longrightarrow> \<exists>x \<in> set xs. f x = Inl e"
  by (induction xs) (auto split: sum.splits)

lemma filter_positions:
  "map (\<lambda>i. f (xs ! i)) (filter (\<lambda>i. P (xs ! i)) [0..<length xs]) = map f (filter P xs)"
proof (induction xs rule: rev_induct)
  case Nil
  then show ?case by simp
next
  case (snoc x xs)
  have "map (\<lambda>i. f ((xs @ [x]) ! i)) (filter (\<lambda>i. P ((xs @ [x]) ! i)) [0..<length xs])
        = map (\<lambda>i. f (xs ! i)) (filter (\<lambda>i. P (xs ! i)) [0..<length xs])"
    by (intro map_cong filter_cong) (auto simp: nth_append)
  then show ?case using snoc by (simp add: nth_append)
qed








lemma in_group_names: "g \<in> set (group_names keys) \<longleftrightarrow> Some g \<in> set keys"
  by (auto simp: group_names_def set_first_occurrences split: option.splits)



















section \<open>Properties of the lifecycle filter\<close>

lemma cell_gt_True: "cell_gt v k = Inr True \<longleftrightarrow> (\<exists>a. v = Num a \<and> k < a)"
  by (cases v) auto

lemma length_group_positions:
  "length (group_positions (map f table) g) = length (filter (\<lambda>r. f r = Some g) table)"
proof -
  have "map (\<lambda>i. table ! i) (filter (\<lambda>i. f (table ! i) = Some g) [0..<length table])
        = map (\<lambda>r. r) (filter (\<lambda>r. f r = Some g) table)"
    by (rule filter_positions)
  then have "length (filter (\<lambda>i. f (table ! i) = Some g) [0..<length table])
        = length (filter (\<lambda>r. f r = Some g) table)"
    by (metis length_map)
  moreover have "group_positions (map f table) g
        = filter (\<lambda>i. f (table ! i) = Some g) [0..<length table]"
    unfolding group_positions_def by (intro filter_cong) auto
  ultimately show ?thesis by simp
qed

lemma row_key_single:
  "row_key [c] r = (if cell_of r c = NA then None else Some [cell_of r c])"
  by (simp add: row_key_def Let_def)

lemma complete_lifecycle_Inr:
  assumes "complete_lifecycle df = Inr kept"
  shows "kept = \<lparr>columns = columns df,
                  rows = filter (\<lambda>r. cell_of r ''instance_id'' \<noteq> NA \<and>
                           length (filter (\<lambda>r'. cell_of r' ''instance_id'' = cell_of r ''instance_id'')
                                     (rows df)) = 4) (rows df)\<rparr>"
proof -
  let ?id = "\<lambda>r. cell_of r ''instance_id''"
  let ?keys = "map (row_key [''instance_id'']) (rows df)"
  let ?valid = "filter (\<lambda>g. length (group_positions ?keys g) = 4) (group_names ?keys)"
  from assms have gb: "groupby df [''instance_id''] = Inr ?keys"
    by (auto simp: complete_lifecycle_def groupby_def split: if_splits sum.splits)
  with assms have k: "kept = select_rows df (map (\<lambda>r. [?id r] \<in> set ?valid) (rows df))"
    by (simp add: complete_lifecycle_def Let_def)
  have P: "[?id r] \<in> set ?valid \<longleftrightarrow>
           ?id r \<noteq> NA \<and> length (filter (\<lambda>r'. ?id r' = ?id r) (rows df)) = 4"
    if r: "r \<in> set (rows df)" for r
  proof (cases "?id r = NA")
    case True
    have ne: "row_key [''instance_id''] r' \<noteq> Some [NA]" for r'
      by (simp add: row_key_single)
    have "Some [NA] \<notin> set ?keys"
    proof
      assume "Some [NA] \<in> set ?keys"
      then obtain r' where "Some [NA] = row_key [''instance_id''] r'" by (auto simp: image_iff)
      with ne[of r'] show False by simp
    qed
    then have "[NA] \<notin> set (group_names ?keys)" by (simp only: in_group_names not_False_eq_True)
    then have "[?id r] \<notin> set ?valid" using True by simp
    then show ?thesis using True by simp
  next
    case False
    have rk: "row_key [''instance_id''] r = Some [?id r]" using False by (simp add: row_key_single)
    have "row_key [''instance_id''] r \<in> set ?keys" using r by simp
    then have "Some [?id r] \<in> set ?keys" unfolding rk .
    then have g: "[?id r] \<in> set (group_names ?keys)" by (simp only: in_group_names)
    have "(row_key [''instance_id''] r' = Some [?id r]) = (?id r' = ?id r)" for r'
      using False by (simp add: row_key_single)
    then have f: "filter (\<lambda>r'. row_key [''instance_id''] r' = Some [?id r]) (rows df)
                   = filter (\<lambda>r'. ?id r' = ?id r) (rows df)"
      by simp
    have "length (group_positions ?keys [?id r]) = length (filter (\<lambda>r'. ?id r' = ?id r) (rows df))"
      unfolding length_group_positions f ..
    with g False show ?thesis by simp
  qed
  have "filter (\<lambda>r. [?id r] \<in> set ?valid) (rows df)
        = filter (\<lambda>r. ?id r \<noteq> NA \<and> length (filter (\<lambda>r'. ?id r' = ?id r) (rows df)) = 4) (rows df)"
    by (rule filter_cong[OF refl]) (rule P)
  then show ?thesis unfolding k select_rows_map by simp
qed

lemma warm_rows_Inr:
  assumes "warm_rows df = Inr out"
  shows "out = \<lparr>columns = columns df,
                 rows = filter (\<lambda>r. \<exists>a. cell_of r ''invocation_count'' = Num a \<and> 1 < a) (rows df)\<rparr>"
proof -
  from assms obtain msk where
    c: "compare_all (\<lambda>r. cell_gt (cell_of r ''invocation_count'') 1) (rows df) = Inr msk"
    and o: "out = select_rows df msk"
    by (auto simp: warm_rows_def split: if_splits sum.splits)
  from compare_all_Inr[OF c]
  have "msk = map (\<lambda>r. \<exists>a. cell_of r ''invocation_count'' = Num a \<and> 1 < a) (rows df)"
    by (simp add: cell_gt_True)
  then show ?thesis unfolding o by (simp only: select_rows_map)
qed


lemma warm_iff: "warm r \<longleftrightarrow> (\<exists>a. cell_of r ''invocation_count'' = Num a \<and> 1 < a)"
  by (simp add: warm_def split: cell.splits)

lemma complete_lifecycle_eq:
  "complete_lifecycle df =
     (if ''instance_id'' \<notin> set (columns df) then Inl KeyError
      else if \<exists>r \<in> set (rows df). is_obj (cell_of r ''instance_id'') then Inl TypeError
      else Inr \<lparr>columns = columns df, rows = lifecycle_rows (rows df)\<rparr>)"
proof (cases "''instance_id'' \<in> set (columns df) \<and>
              \<not> (\<exists>r \<in> set (rows df). is_obj (cell_of r ''instance_id''))")
  case True
  then have "\<exists>keys. groupby df [''instance_id''] = Inr keys" by (simp add: groupby_def)
  then obtain kept where k: "complete_lifecycle df = Inr kept"
    by (auto simp: complete_lifecycle_def Let_def)
  from complete_lifecycle_Inr[OF k] have
    "kept = \<lparr>columns = columns df, rows = lifecycle_rows (rows df)\<rparr>"
    by (simp only: lifecycle_rows_def)
  with k True show ?thesis by simp
next
  case False
  then show ?thesis by (auto simp: complete_lifecycle_def groupby_def)
qed

lemma compare_all_Inr_all:
  "compare_all f xs = Inr bs \<Longrightarrow> \<forall>x \<in> set xs. \<exists>b. f x = Inr b"
  by (induction xs arbitrary: bs) (auto split: sum.splits)

lemma cell_gt_Inl: "cell_gt v k = Inl e \<longleftrightarrow> \<not> plain_cell v \<and> e = TypeError"
  by (cases v) (auto simp: plain_cell_def)

lemma cell_gt_Inr: "(\<exists>b. cell_gt v k = Inr b) \<longleftrightarrow> plain_cell v"
  by (cases v) (auto simp: plain_cell_def)

lemma warm_rows_eq:
  "warm_rows df =
     (if ''invocation_count'' \<notin> set (columns df) then Inl KeyError
      else if \<exists>r \<in> set (rows df). \<not> plain_cell (cell_of r ''invocation_count'') then Inl TypeError
      else Inr \<lparr>columns = columns df, rows = filter warm (rows df)\<rparr>)"
proof (cases "''invocation_count'' \<in> set (columns df)")
  case False
  then show ?thesis by (simp add: warm_rows_def)
next
  case True
  let ?f = "\<lambda>r. cell_gt (cell_of r ''invocation_count'') 1"
  show ?thesis
  proof (cases "compare_all ?f (rows df)")
    case (Inl e)
    from compare_all_Inl[OF Inl] obtain r where "r \<in> set (rows df)" "?f r = Inl e" by blast
    then have "\<exists>r \<in> set (rows df). \<not> plain_cell (cell_of r ''invocation_count'')" "e = TypeError"
      by (auto simp: cell_gt_Inl)
    with True Inl show ?thesis by (simp add: warm_rows_def)
  next
    case (Inr msk)
    from compare_all_Inr_all[OF Inr]
    have p: "\<not> (\<exists>r \<in> set (rows df). \<not> plain_cell (cell_of r ''invocation_count''))"
      by (simp add: cell_gt_Inr)
    have wr: "warm_rows df = Inr (select_rows df msk)" using True Inr by (simp add: warm_rows_def)
    have w: "warm = (\<lambda>r. \<exists>a. cell_of r ''invocation_count'' = Num a \<and> 1 < a)"
      by (rule ext) (rule warm_iff)
    from warm_rows_Inr[OF wr] have
      "select_rows df msk = \<lparr>columns = columns df, rows = filter warm (rows df)\<rparr>"
      by (simp only: w)
    with True Inr p show ?thesis by (simp add: warm_rows_def)
  qed
qed

text \<open>
  Claim C4, as amended. \<^verbatim>\<open>filter_full_lifecycle\<close> raises \<^verbatim>\<open>KeyError\<close> for a table without
  the column \<^verbatim>\<open>instance_id\<close> and \<^verbatim>\<open>TypeError\<close> for one with a list or a dictionary as
  \<^verbatim>\<open>instance_id\<close>. Otherwise the lifecycle filter keeps the columns and retains, in
  order, exactly the rows whose \<^verbatim>\<open>instance_id\<close> is not missing and is the \<^verbatim>\<open>instance_id\<close>
  of exactly four rows of the whole input table (\<open>lifecycle_rows\<close>), and this is the
  result when \<^verbatim>\<open>remove_cold\<close> is false. When \<^verbatim>\<open>remove_cold\<close> is true, a table without the
  column \<^verbatim>\<open>invocation_count\<close> raises \<^verbatim>\<open>KeyError\<close>, a retained row whose
  \<^verbatim>\<open>invocation_count\<close> is neither a number nor missing raises \<^verbatim>\<open>TypeError\<close>, and
  otherwise the result keeps of the retained rows exactly those whose
  \<^verbatim>\<open>invocation_count\<close> is a number greater than 1 (\<open>warm\<close>).
\<close>

theorem filter_full_lifecycle_keeps:
  "filter_full_lifecycle df remove_cold =
     (if ''instance_id'' \<notin> set (columns df) then Inl KeyError
      else if \<exists>r \<in> set (rows df). is_obj (cell_of r ''instance_id'') then Inl TypeError
      else if \<not> remove_cold then Inr \<lparr>columns = columns df, rows = lifecycle_rows (rows df)\<rparr>
      else if ''invocation_count'' \<notin> set (columns df) then Inl KeyError
      else if \<exists>r \<in> set (lifecycle_rows (rows df)). \<not> plain_cell (cell_of r ''invocation_count'')
        then Inl TypeError
      else Inr \<lparr>columns = columns df, rows = filter warm (lifecycle_rows (rows df))\<rparr>)"
  by (simp add: filter_full_lifecycle_def complete_lifecycle_eq warm_rows_eq)

theorem filter_full_lifecycle_keeps_witness:
  "filter_full_lifecycle example_lifecycle False =
     Inr \<lparr>columns = [''instance_id'', ''invocation_count''],
          rows = [example_call ''A'' 1, example_call ''A'' 2, example_call ''A'' 3,
                  example_call ''A'' 4]\<rparr>
   \<and> filter_full_lifecycle example_lifecycle True =
     Inr \<lparr>columns = [''instance_id'', ''invocation_count''],
          rows = [example_call ''A'' 2, example_call ''A'' 3, example_call ''A'' 4]\<rparr>"
proof -
  have l: "lifecycle_rows (rows example_lifecycle) =
             [example_call ''A'' 1, example_call ''A'' 2, example_call ''A'' 3, example_call ''A'' 4]"
    by (simp add: lifecycle_rows_def example_lifecycle_def example_call_def cell_of_def)
  have c: "''instance_id'' \<in> set (columns example_lifecycle)"
    "''invocation_count'' \<in> set (columns example_lifecycle)"
    "\<not> (\<exists>r \<in> set (rows example_lifecycle). is_obj (cell_of r ''instance_id''))"
    by (simp_all add: example_lifecycle_def example_call_def cell_of_def is_obj_def)
  have "filter_full_lifecycle example_lifecycle False =
     Inr \<lparr>columns = columns example_lifecycle, rows = lifecycle_rows (rows example_lifecycle)\<rparr>"
    using filter_full_lifecycle_keeps[of example_lifecycle False] c by simp
  moreover have "filter_full_lifecycle example_lifecycle True =
     Inr \<lparr>columns = columns example_lifecycle,
          rows = filter warm (lifecycle_rows (rows example_lifecycle))\<rparr>"
    using filter_full_lifecycle_keeps[of example_lifecycle True] c
    by (simp add: l example_call_def cell_of_def plain_cell_def)
  ultimately show ?thesis
    by (simp add: l) (simp add: example_lifecycle_def example_call_def warm_def cell_of_def)
qed

text \<open>
  Claim C4 as stated fails: not every table is answered with a table. The empty table
  \<^verbatim>\<open>load_records_from_directory\<close> returns for a tree without log files has no column
  \<^verbatim>\<open>instance_id\<close>, and line 199 raises \<^verbatim>\<open>KeyError\<close>, with and without \<^verbatim>\<open>remove_cold\<close>.
\<close>

theorem empty_table_counterexample:
  "load_records_from_directory example_lib ''root'' (Dir [(''notes.txt'', [''hello''])] [])
     = Inr (\<lparr>columns = [], rows = []\<rparr>, [])
   \<and> filter_full_lifecycle \<lparr>columns = [], rows = []\<rparr> False = Inl KeyError
   \<and> filter_full_lifecycle \<lparr>columns = [], rows = []\<rparr> True = Inl KeyError"
  by (simp add: load_eq selected_def endswith_def DataFrame_Nil
        filter_full_lifecycle_def complete_lifecycle_def groupby_def)


section \<open>The tables of the caller\<close>







end
